theory Spec2Isabelle
  imports Main "HOL-Library.Word" "HOL-Library.AList"
begin

section \<open>Data model of the validator processor\<close>

text \<open>
  The Go package \<open>validator\<close> (processor of validator operations) is embedded
  shallowly.  Fixed-size byte arrays are words of the same width, \<open>uint64\<close> is a
  64-bit word whose addition wraps, \<open>*big.Int\<close> is \<open>int\<close>, and a pointer that
  the code tests against \<open>nil\<close> is an \<open>option\<close>.
\<close>

type_synonym Address = "160 word"
type_synonym Hash = "256 word"
type_synonym BlsPubKey = "384 word"
type_synonym BlsSignature = "768 word"
type_synonym uint64 = "64 word"
type_synonym bytes = "8 word list"

text \<open>Errors of the operation package that the processor passes through.\<close>

datatype OperationError =
    ErrDelegateForkRequire
  | ErrBadProfitShare
  | ErrBadStakeShare
  | ErrNoExitRoles
  | ErrNoWithdrawalRoles
  | ErrNoBalance
  | ErrOpDecode
  | ErrBadSignature
  | ErrDelegatingStakeData

text \<open>
  The error values of the processor.  The three \<open>errors.New\<close> values built inline
  in \<open>validatorDeposit\<close> and the two \<open>fmt.Errorf\<close> values of
  \<open>validatorUpdateBalance\<close> get constructors of their own.
\<close>

datatype Error =
    ErrTooLowDepositValue
  | ErrInsufficientFundsForOp
  | ErrInvalidFromAddresses
  | ErrUnknownValidator
  | ErrNoWithdrawalCred
  | ErrMismatchPulicKey
  | ErrNotActivatedValidator
  | ErrValidatorActivated
  | ErrValidatorIsOut
  | ErrInvalidToAddress
  | ErrNoSavedValSyncOp
  | ErrValSyncTxExists
  | ErrValOpBlocked
  | ErrNoActiveWithdrawalOp
  | ErrMismatchValSyncOp
  | ErrInvalidOpEpoch
  | ErrTxNF
  | ErrReceiptNF
  | ErrInvalidReceiptStatus
  | ErrInvalidOpCode
  | ErrInvalidCreator
  | ErrInvalidAmount
  | ErrMismatchDelegateData
  | ErrSenderRejByDelegate
  | ErrDepositAlreadyActivated
  | ErrDepositMismatchPublicKey
  | ErrDepositMismatchWithdrawalAddress
  | ErrInitTxReceiptNotFound
  | ErrInitTxReceiptFailed
  | ErrStorage
  | ErrSlotInfo
  | ErrRlp
  | ErrOperation OperationError

text \<open>
  What a call does: it returns a value, it returns an error, or it panics (a nil
  pointer is dereferenced and the Go runtime unwinds the stack; nothing is returned).
\<close>

datatype 'a outcome = Returned 'a | Failed Error | Panicked

subsection \<open>Delegating stake rules\<close>

text \<open>
  A Go \<open>map[common.Address]uint8\<close> is an association list; the order of the list
  stands for the order in which \<open>range\<close> visits the map, which Go leaves open.
\<close>

record DelegatingStakeRules =
  ProfitShare :: "(Address \<times> 8 word) list"
  StakeShare :: "(Address \<times> 8 word) list"
  ExitRoles :: "Address list"
  WithdrawalRoles :: "Address list"

record DelegatingStakeData =
  Rules :: DelegatingStakeRules
  TrialPeriod :: uint64
  TrialRules :: DelegatingStakeRules

definition shareSum :: "(Address \<times> 8 word) list \<Rightarrow> nat" where
  "shareSum m = sum_list (map (\<lambda>(a, p). unat p) m)"

text \<open>
  Modelled from the spec: \<open>DelegatingStakeRules.Validate\<close> of the operation package
  is not among the sources (only its test is).  Section 4.1: it enforces profit-share
  sum = 100, stake-share sum = 100, exit list non-empty, withdrawal list non-empty, and
  returns the first violated rule as a named error.
\<close>

definition Validate :: "DelegatingStakeRules \<Rightarrow> OperationError option" where
  "Validate r =
     (if shareSum (ProfitShare r) \<noteq> 100 then Some ErrBadProfitShare
      else if shareSum (StakeShare r) \<noteq> 100 then Some ErrBadStakeShare
      else if ExitRoles r = [] then Some ErrNoExitRoles
      else if WithdrawalRoles r = [] then Some ErrNoWithdrawalRoles
      else None)"

subsection \<open>Operations\<close>

text \<open>
  The decoded operations of package \<open>operation\<close>, with the fields the processor
  reads through their accessor methods.  \<open>ExitAfterEpoch\<close>, the \<open>Amount\<close> and
  the \<open>Balance\<close> of a sync operation and the \<open>DelegatingStake\<close> of a deposit are
  pointers that may be nil.
\<close>

datatype Code =
    DepositCode | ActivateCode | ExitCode | DeactivateCode | WithdrawalCode
  | UpdateBalanceCode

datatype ValidatorSyncOpType = Activate | Deactivate | UpdateBalance

datatype OpVersion = OpNoVer | OpVer1

record DepositOp =
  dep_PubKey :: BlsPubKey
  dep_CreatorAddress :: Address
  dep_WithdrawalAddress :: Address
  dep_Signature :: BlsSignature
  dep_DelegatingStake :: "DelegatingStakeData option"

record ExitOp =
  ex_PubKey :: BlsPubKey
  ex_CreatorAddress :: Address
  ex_ExitAfterEpoch :: "uint64 option"

record WithdrawalOp =
  wd_CreatorAddress :: Address
  wd_Amount :: int

record ValidatorSyncOp =
  vs_Version :: OpVersion
  vs_OpType :: ValidatorSyncOpType
  vs_ProcEpoch :: uint64
  vs_Index :: uint64
  vs_Creator :: Address
  vs_Amount :: "int option"
  vs_Balance :: "int option"
  vs_InitTxHash :: Hash

datatype Operation =
    Deposit DepositOp
  | Exit ExitOp
  | Withdrawal WithdrawalOp
  | ValidatorSync ValidatorSyncOp

text \<open>
  Modelled from the spec: \<open>OpCode\<close> of the operation package is not among the
  sources.  Section 6: a leading operation code distinguishes Deposit, Exit, Withdrawal,
  Activate, Deactivate and UpdateBalance; a sync operation carries the code of its kind.
\<close>

definition syncOpCode :: "ValidatorSyncOp \<Rightarrow> Code" where
  "syncOpCode v =
     (case vs_OpType v of
        Activate \<Rightarrow> ActivateCode
      | Deactivate \<Rightarrow> DeactivateCode
      | UpdateBalance \<Rightarrow> UpdateBalanceCode)"

fun OpCode :: "Operation \<Rightarrow> Code" where
  "OpCode (Deposit d) = DepositCode"
| "OpCode (Exit e) = ExitCode"
| "OpCode (Withdrawal w) = WithdrawalCode"
| "OpCode (ValidatorSync v) = syncOpCode v"

text \<open>\<open>types.ValidatorSync\<close>: the sync record saved from the coordinating network.\<close>

record SavedValidatorSync =
  sv_OpType :: ValidatorSyncOpType
  sv_ProcEpoch :: uint64
  sv_Index :: uint64
  sv_Creator :: Address
  sv_Amount :: "int option"
  sv_InitTxHash :: Hash
  sv_TxHash :: "Hash option"

subsection \<open>The validator record\<close>

datatype Version = NoVer | Ver1

text \<open>
  Modelled from the spec: package \<open>validator/storage\<close> (the \<open>Validator\<close> type, its
  methods and the store) is not among the sources.  The record follows section 3: the
  stake ledger maps a depositor to the deposited amount, \<open>DepositTxs\<close> is a set of
  transaction hashes, the pending exit and withdrawal transactions are optional hashes,
  and the era sentinel is the greatest \<open>uint64\<close>.  The index, which is assigned at
  activation only, starts at the same sentinel; a stake that is not in the ledger is 0.
\<close>

record Validator =
  PubKey :: BlsPubKey
  CreatorAddress :: Address
  WithdrawalAddress :: "Address option"
  Index :: uint64
  ActivationEra :: uint64
  ExitEra :: uint64
  StakeLedger :: "(Address \<times> int) list"
  DepositTxs :: "Hash list"
  PendingExitTx :: "Hash option"
  PendingWithdrawalTx :: "Hash option"
  DelegatingStake :: "DelegatingStakeData option"
  SchemaVersion :: Version

definition MaxUint64 :: uint64 where
  "MaxUint64 = 0xFFFFFFFFFFFFFFFF"

definition NewValidator :: "BlsPubKey \<Rightarrow> Address \<Rightarrow> Address option \<Rightarrow> Validator" where
  "NewValidator pk addr w =
     \<lparr> PubKey = pk, CreatorAddress = addr, WithdrawalAddress = w, Index = MaxUint64,
       ActivationEra = MaxUint64, ExitEra = MaxUint64, StakeLedger = [],
       DepositTxs = [], PendingExitTx = None, PendingWithdrawalTx = None,
       DelegatingStake = None, SchemaVersion = NoVer \<rparr>"

definition HasDelegatingStake :: "Validator \<Rightarrow> bool" where
  "HasDelegatingStake v = (DelegatingStake v \<noteq> None)"

definition AddDepositTxs :: "Hash \<Rightarrow> Validator \<Rightarrow> Validator" where
  "AddDepositTxs h v = v\<lparr>DepositTxs := List.insert h (DepositTxs v)\<rparr>"

definition ResetDepositTxs :: "Validator \<Rightarrow> Validator" where
  "ResetDepositTxs v = v\<lparr>DepositTxs := []\<rparr>"

definition StakeByAddress :: "Validator \<Rightarrow> Address \<Rightarrow> int" where
  "StakeByAddress v a = (case map_of (StakeLedger v) a of None \<Rightarrow> 0 | Some x \<Rightarrow> x)"

definition TotalStake :: "Validator \<Rightarrow> int" where
  "TotalStake v = sum_list (map snd (StakeLedger v))"

definition AddStake :: "Address \<Rightarrow> int \<Rightarrow> Validator \<Rightarrow> Validator" where
  "AddStake a x v =
     v\<lparr>StakeLedger := AList.update a (StakeByAddress v a + x) (StakeLedger v)\<rparr>"

text \<open>
  \<open>SubtractStake\<close> returns the depositor's new stake, or an error when the stake
  does not cover the amount (section 7: insufficient stake for refund amount).
\<close>

definition SubtractStake :: "Address \<Rightarrow> int \<Rightarrow> Validator \<Rightarrow> Error + (int \<times> Validator)" where
  "SubtractStake a x v =
     (if StakeByAddress v a < x then Inl ErrStorage
      else Inr (StakeByAddress v a - x,
                v\<lparr>StakeLedger := AList.update a (StakeByAddress v a - x) (StakeLedger v)\<rparr>))"

definition RmStakeByAddress :: "Address \<Rightarrow> Validator \<Rightarrow> Validator" where
  "RmStakeByAddress a v = v\<lparr>StakeLedger := AList.delete a (StakeLedger v)\<rparr>"

definition UnsetStake :: "Validator \<Rightarrow> Validator" where
  "UnsetStake v = v\<lparr>StakeLedger := []\<rparr>"

subsection \<open>The world state\<close>

datatype RuleType = RuleProfitShare | RuleStakeShare

record ShareRuleApplying =
  sra_Address :: Address
  sra_RuleType :: RuleType
  sra_IsTrial :: bool
  sra_Amount :: int

text \<open>
  The log entries of package \<open>txlog\<close>.  The logs of the requests are kept with the
  address of the log and the values that \<open>PackDepositLogData\<close>,
  \<open>PackExitRequestLogData\<close> and \<open>PackWithdrawalLogData\<close> pack; the logs of the
  sync operations with the arguments of \<open>AddActivateLog\<close>, \<open>AddDeactivateLog\<close>,
  \<open>AddUpdateBalanceLog\<close> and \<open>AddDelegatingStakeLog\<close> (the last with the
  entries its topics are made of).
\<close>

datatype TxLog =
    DepositLog Address BlsPubKey Address Address int BlsSignature uint64
  | ExitRequestLog Address BlsPubKey Address uint64 "uint64 option"
  | WithdrawalRequestLog Address BlsPubKey Address uint64 uint64
  | ActivateLog Address bytes Address Hash
  | DeactivateLog Address bytes Address Hash
  | UpdateBalanceLog Address bytes Address Hash "Address option"
  | DelegatingStakeLog Address bytes "ShareRuleApplying list"

text \<open>
  Modelled from the spec: \<open>vm.StateDB\<close> and the validator store are not among the
  sources.  Sections 4.2 and 6: the state accessor gives balances, nonces, snapshots and
  logs; the store keeps one validator record per creator address, the deposit counter
  and the list of validators by index, all inside the same state.
\<close>

record StateDB =
  Balance :: "Address \<Rightarrow> int"
  Nonce :: "Address \<Rightarrow> uint64"
  Validators :: "Address \<Rightarrow> Validator option"
  DepositCount :: uint64
  ValidatorsList :: "(uint64 \<times> Address) list"
  Logs :: "TxLog list"

definition GetBalance :: "StateDB \<Rightarrow> Address \<Rightarrow> int" where
  "GetBalance s a = Balance s a"

definition AddBalance :: "Address \<Rightarrow> int \<Rightarrow> StateDB \<Rightarrow> StateDB" where
  "AddBalance a x s = s\<lparr>Balance := (Balance s)(a := Balance s a + x)\<rparr>"

definition SubBalance :: "Address \<Rightarrow> int \<Rightarrow> StateDB \<Rightarrow> StateDB" where
  "SubBalance a x s = s\<lparr>Balance := (Balance s)(a := Balance s a - x)\<rparr>"

definition GetNonce :: "StateDB \<Rightarrow> Address \<Rightarrow> uint64" where
  "GetNonce s a = Nonce s a"

definition SetNonce :: "Address \<Rightarrow> uint64 \<Rightarrow> StateDB \<Rightarrow> StateDB" where
  "SetNonce a n s = s\<lparr>Nonce := (Nonce s)(a := n)\<rparr>"

definition AddLog :: "TxLog \<Rightarrow> StateDB \<Rightarrow> StateDB" where
  "AddLog l s = s\<lparr>Logs := Logs s @ [l]\<rparr>"

text \<open>
  A snapshot stands for the state at the time it is taken; reverting to it gives that
  state back, whatever was written since.
\<close>

definition Snapshot :: "StateDB \<Rightarrow> StateDB" where
  "Snapshot s = s"

definition RevertToSnapshot :: "StateDB \<Rightarrow> StateDB \<Rightarrow> StateDB" where
  "RevertToSnapshot snapshot s = snapshot"

definition GetValidator :: "StateDB \<Rightarrow> Address \<Rightarrow> Error + Validator option" where
  "GetValidator s a = Inr (Validators s a)"

definition SetValidator :: "Validator \<Rightarrow> StateDB \<Rightarrow> Error + StateDB" where
  "SetValidator v s = Inr (s\<lparr>Validators := (Validators s)(CreatorAddress v \<mapsto> v)\<rparr>)"

definition GetDepositCount :: "StateDB \<Rightarrow> uint64" where
  "GetDepositCount s = DepositCount s"

definition IncrementDepositCount :: "StateDB \<Rightarrow> StateDB" where
  "IncrementDepositCount s = s\<lparr>DepositCount := DepositCount s + 1\<rparr>"

definition AddValidatorToList :: "uint64 \<Rightarrow> Address \<Rightarrow> StateDB \<Rightarrow> StateDB" where
  "AddValidatorToList i a s = s\<lparr>ValidatorsList := ValidatorsList s @ [(i, a)]\<rparr>"

subsection \<open>The chain and the block context\<close>

record Era =
  era_Number :: uint64
  era_From :: uint64
  era_To :: uint64

record Receipt =
  rc_Status :: uint64

record Header =
  hdr_Slot :: uint64

record Transaction =
  tx_Data :: bytes
  tx_Sender :: Address

record Message =
  msg_TxHash :: Hash
  msg_Data :: bytes

definition ReceiptStatusSuccessful :: uint64 where
  "ReceiptStatusSuccessful = 1"

text \<open>
  What the processor is given besides the state: the block context \<open>p.ctx\<close>, the
  chain configuration \<open>p.blockchain.Config()\<close> (the address of the validators state,
  the fork predicates of \<open>params.ChainConfig\<close>, the expiration window, the
  effective balance in wat), the lookups of the \<open>blockchain\<close> interface, and the
  functions of the operation package that are not among the sources (decoding, the
  deposit signature check, the constructor and the encoding of delegating stake data).
  \<open>tx_Sender\<close> is what \<open>types.Sender\<close> returns for the transaction.
\<close>

record BlockContext =
  ctx_Slot :: uint64
  ctx_Era :: uint64
  ctx_BlockHash :: Hash

record ChainConfig =
  ValidatorsStateAddress :: "Address option"
  IsForkSlotDelegate :: "uint64 \<Rightarrow> bool"
  IsForkSlotValOpTracking :: "uint64 \<Rightarrow> bool"
  IsForkSlotValSyncProc :: "uint64 \<Rightarrow> bool"
  ValidatorOpExpireSlots :: uint64
  EffectiveBalance :: int

record Blockchain =
  EpochToEra :: "uint64 \<Rightarrow> Era option"
  ReadEra :: "uint64 \<Rightarrow> Era option"
  SlotToEpoch :: "uint64 \<Rightarrow> uint64"
  CurrentSlot :: uint64
  SlotOfEpochStart :: "uint64 \<Rightarrow> Error + uint64"
  EraInfoNumber :: uint64
  GetValidatorSyncData :: "Hash \<Rightarrow> SavedValidatorSync option"
  GetTransaction :: "Hash \<Rightarrow> Transaction option"
  GetTransactionReceipt :: "Hash \<Rightarrow> Receipt option \<times> Hash"
  GetHeaderByHash :: "Hash \<Rightarrow> Header option"

record OperationPkg =
  DecodeBytes :: "bytes \<Rightarrow> Error + Operation"
  VerifyDepositSig :: "BlsSignature \<Rightarrow> BlsPubKey \<Rightarrow> Address \<Rightarrow> Address \<Rightarrow> Error option"
  NewDelegatingStakeData :: "DelegatingStakeData \<Rightarrow> Error + DelegatingStakeData"
  MarshalDelegatingStake :: "DelegatingStakeData option \<Rightarrow> Error + bytes"

text \<open>
  The packing functions of package \<open>txlog\<close> that return an error beside the bytes
  (\<open>PackDeactivateLogData\<close> in deactivate.go returns what the RLP encoder returns).
\<close>

record TxLogPkg =
  PackActivateLogData :: "Hash \<Rightarrow> Address \<Rightarrow> uint64 \<Rightarrow> uint64 \<Rightarrow> Error + bytes"
  PackDeactivateLogData :: "Hash \<Rightarrow> Address \<Rightarrow> uint64 \<Rightarrow> uint64 \<Rightarrow> Error + bytes"
  PackUpdateBalanceLogData :: "Hash \<Rightarrow> Address \<Rightarrow> uint64 \<Rightarrow> int \<Rightarrow> Error + bytes"
  PackDelegatingStakeLogData :: "ShareRuleApplying list \<Rightarrow> Error + bytes"

record Env =
  ctx :: BlockContext
  Config :: ChainConfig
  blockchain :: Blockchain
  operation :: OperationPkg
  txlog :: TxLogPkg

definition postpone :: uint64 where
  "postpone = 2"

definition MinDepositVal :: int where
  "MinDepositVal = 10000000000000000000"

definition BigGwei :: int where
  "BigGwei = 1000000000"

definition BigWat :: int where
  "BigWat = 1000000000000000000"

text \<open>
  Modelled from the spec: \<open>common.BnCanCastToUint64\<close> is not among the sources;
  section 4.4 calls the check "representable in the log's amount unit", a \<open>uint64\<close>.
\<close>

definition BnCanCastToUint64 :: "int \<Rightarrow> bool" where
  "BnCanCastToUint64 x = (0 \<le> x \<and> x < 2 ^ 64)"

section \<open>The processor\<close>

subsection \<open>Helpers\<close>

definition GetValidatorsStateAddress :: "Env \<Rightarrow> Address" where
  "GetValidatorsStateAddress E =
     (case ValidatorsStateAddress (Config E) of None \<Rightarrow> 0 | Some a \<Rightarrow> a)"

definition IsValidatorOp :: "Env \<Rightarrow> Address \<Rightarrow> bool" where
  "IsValidatorOp E addrTo = (addrTo = GetValidatorsStateAddress E)"

definition updateValidatorVersionBySlot :: "Env \<Rightarrow> Validator \<Rightarrow> Validator" where
  "updateValidatorVersionBySlot E v =
     v\<lparr>SchemaVersion :=
         (if IsForkSlotValOpTracking (Config E) (ctx_Slot (ctx E)) then Ver1 else NoVer)\<rparr>"

definition effectiveBalanceWei :: "Env \<Rightarrow> int" where
  "effectiveBalanceWei E = EffectiveBalance (Config E) * BigWat"

text \<open>
  The check of a previous operation that succeeded: it still blocks while the current
  slot is below the slot of its block plus the expiration window (an addition of
  \<open>uint64\<close>).  A receipt whose block has no header does not block.
\<close>

definition prevOpNotExpired :: "Env \<Rightarrow> Receipt option \<Rightarrow> Hash \<Rightarrow> bool" where
  "prevOpNotExpired E rc blHash =
     (case rc of
        None \<Rightarrow> False
      | Some r \<Rightarrow>
          rc_Status r = ReceiptStatusSuccessful \<and>
          (case GetHeaderByHash (blockchain E) blHash of
             None \<Rightarrow> False
           | Some prevHeader \<Rightarrow>
               ctx_Slot (ctx E) < hdr_Slot prevHeader + ValidatorOpExpireSlots (Config E)))"

text \<open>
  The block "ver1 data validation" that \<open>validatorDeposit\<close> (lines 360-395),
  \<open>validatorExit\<close> (lines 476-510) and \<open>validatorWithdrawal\<close> (lines 550-588)
  each contain: a record of version \<open>Ver1\<close> with a pending transaction is blocked
  when that transaction is in the block being processed, or succeeded and has not
  expired.
\<close>

definition opBlocked :: "Env \<Rightarrow> Validator \<Rightarrow> Hash option \<Rightarrow> bool" where
  "opBlocked E v prevOpTx =
     (SchemaVersion v = Ver1 \<and>
      (case prevOpTx of
         None \<Rightarrow> False
       | Some h \<Rightarrow>
           (case GetTransactionReceipt (blockchain E) h of
              (rc, blHash) \<Rightarrow>
                (blHash \<noteq> 0 \<and> blHash = ctx_BlockHash (ctx E)) \<or> prevOpNotExpired E rc blHash)))"

text \<open>
  \<open>isValidatorTrialPeriod\<close>.  \<open>rawdb.ReadEra\<close> returns nil for an era that is not
  stored, and reading \<open>From\<close> of it panics.
\<close>

definition isValidatorTrialPeriod :: "Env \<Rightarrow> Validator \<Rightarrow> bool outcome" where
  "isValidatorTrialPeriod E v =
     (if ActivationEra v > ctx_Era (ctx E) then Returned True
      else case ReadEra (blockchain E) (ActivationEra v) of
        None \<Rightarrow> Panicked
      | Some activationEra \<Rightarrow>
        (case SlotOfEpochStart (blockchain E) (era_From activationEra) of
           Inl e \<Rightarrow> Failed e
         | Inr activationSlot \<Rightarrow>
           (case DelegatingStake v of
              None \<Rightarrow> Panicked
            | Some ds \<Rightarrow>
              (let endTrialSlot = activationSlot + TrialPeriod ds in
               if endTrialSlot \<ge> ctx_Slot (ctx E) then Returned True
               else if ExitEra v \<le> ctx_Era (ctx E) then
                 (case ReadEra (blockchain E) (ExitEra v) of
                    None \<Rightarrow> Panicked
                  | Some exitEra \<Rightarrow>
                    (case SlotOfEpochStart (blockchain E) (era_From exitEra) of
                       Inl e \<Rightarrow> Failed e
                     | Inr exitSlot \<Rightarrow> Returned (exitSlot \<le> endTrialSlot)))
               else Returned False))))"

text \<open>
  The rules in force for a validator with delegating stake: the trial rules during the
  trial period, the rules otherwise (lines 452-459, 639-646 and 980-987).
\<close>

definition actualRules :: "Env \<Rightarrow> Validator \<Rightarrow> (bool \<times> DelegatingStakeRules) outcome" where
  "actualRules E v =
     (case DelegatingStake v of
        None \<Rightarrow> Panicked
      | Some ds \<Rightarrow>
        (case isValidatorTrialPeriod E v of
           Failed e \<Rightarrow> Failed e
         | Panicked \<Rightarrow> Panicked
         | Returned isTrial \<Rightarrow> Returned (isTrial, if isTrial then TrialRules ds else Rules ds)))"

datatype Ret = RetValue int | RetAddress Address | RetNil

subsection \<open>Deposit\<close>

text \<open>Lines 284-307: the checks of the call, the signature, the value and the balance.\<close>

definition depositChecks :: "Env \<Rightarrow> StateDB \<Rightarrow> Address \<Rightarrow> Address \<Rightarrow> int option \<Rightarrow> DepositOp \<Rightarrow> Error + int" where
  "depositChecks E s caller toAddr val op =
     (if \<not> IsValidatorOp E toAddr then Inl ErrInvalidToAddress
      else case VerifyDepositSig (operation E) (dep_Signature op) (dep_PubKey op)
                  (dep_CreatorAddress op) (dep_WithdrawalAddress op) of
        Some e \<Rightarrow> Inl e
      | None \<Rightarrow>
        (case val of
           None \<Rightarrow> Inl ErrTooLowDepositValue
         | Some v \<Rightarrow>
             if v < MinDepositVal then Inl ErrTooLowDepositValue
             else if \<not> BnCanCastToUint64 (v div BigGwei) then Inl ErrInvalidAmount
             else if GetBalance s caller < v then Inl ErrInsufficientFundsForOp
             else Inr v))"

text \<open>Lines 309-325: the new record, with the delegating stake data of the operation.\<close>

definition depositNewValidator :: "Env \<Rightarrow> DepositOp \<Rightarrow> Error + Validator" where
  "depositNewValidator E op =
     (let validator = NewValidator (dep_PubKey op) (dep_CreatorAddress op)
                        (Some (dep_WithdrawalAddress op)) in
      case dep_DelegatingStake op of
        None \<Rightarrow> Inr validator
      | Some ds \<Rightarrow>
          if \<not> IsForkSlotDelegate (Config E) (ctx_Slot (ctx E))
          then Inl (ErrOperation ErrDelegateForkRequire)
          else case Validate (Rules ds) of
            Some e \<Rightarrow> Inl (ErrOperation e)
          | None \<Rightarrow>
            (case NewDelegatingStakeData (operation E) ds of
               Inl e \<Rightarrow> Inl e
             | Inr d \<Rightarrow> Inr (validator\<lparr>DelegatingStake := Some d\<rparr>)))"

text \<open>
  Lines 327-357: a record that exists already must not be activated and must agree with
  the operation; it then replaces the new record.
\<close>

definition depositCurrValidator :: "Env \<Rightarrow> StateDB \<Rightarrow> DepositOp \<Rightarrow> Validator \<Rightarrow> Validator outcome" where
  "depositCurrValidator E s op validator =
     (case (case GetValidator s (dep_CreatorAddress op) of Inl e \<Rightarrow> None | Inr c \<Rightarrow> c) of
        None \<Rightarrow> Returned validator
      | Some currValidator \<Rightarrow>
          if ActivationEra currValidator < MaxUint64 then Failed ErrDepositAlreadyActivated
          else if PubKey currValidator \<noteq> dep_PubKey op then Failed ErrDepositMismatchPublicKey
          else case WithdrawalAddress currValidator of
            None \<Rightarrow> Panicked
          | Some w \<Rightarrow>
              if w \<noteq> dep_WithdrawalAddress op then Failed ErrDepositMismatchWithdrawalAddress
              else case MarshalDelegatingStake (operation E) (DelegatingStake currValidator) of
                Inl e \<Rightarrow> Failed e
              | Inr curDlg \<Rightarrow>
                (case MarshalDelegatingStake (operation E) (dep_DelegatingStake op) of
                   Inl e \<Rightarrow> Failed e
                 | Inr opDlg \<Rightarrow>
                     if curDlg \<noteq> opDlg then Failed ErrMismatchDelegateData
                     else Returned currValidator))"

text \<open>Lines 397-414: the record is updated and stored, the log written, the value burnt.\<close>

definition depositApply :: "Env \<Rightarrow> StateDB \<Rightarrow> Address \<Rightarrow> Address \<Rightarrow> int \<Rightarrow> DepositOp \<Rightarrow> Hash \<Rightarrow> Validator \<Rightarrow> StateDB \<times> Ret outcome" where
  "depositApply E s caller toAddr v op txHash validator =
     (let validator1 = AddStake caller v (AddDepositTxs txHash
                         (updateValidatorVersionBySlot E validator)) in
      case SetValidator validator1 s of
        Inl e \<Rightarrow> (s, Failed e)
      | Inr s1 \<Rightarrow>
          (let s2 = AddLog (DepositLog toAddr (dep_PubKey op) (dep_CreatorAddress op)
                              (dep_WithdrawalAddress op) v (dep_Signature op)
                              (GetDepositCount s1)) s1;
               s3 = IncrementDepositCount s2;
               s4 = SubBalance caller v s3
           in (s4, Returned (RetValue v))))"

definition validatorDeposit :: "Env \<Rightarrow> StateDB \<Rightarrow> Address \<Rightarrow> Address \<Rightarrow> int option \<Rightarrow> DepositOp \<Rightarrow> Hash \<Rightarrow> StateDB \<times> Ret outcome" where
  "validatorDeposit E s caller toAddr val op txHash =
     (case depositChecks E s caller toAddr val op of
        Inl e \<Rightarrow> (s, Failed e)
      | Inr v \<Rightarrow>
        (case depositNewValidator E op of
           Inl e \<Rightarrow> (s, Failed e)
         | Inr validator0 \<Rightarrow>
           (case depositCurrValidator E s op validator0 of
              Failed e \<Rightarrow> (s, Failed e)
            | Panicked \<Rightarrow> (s, Panicked)
            | Returned validator \<Rightarrow>
                if opBlocked E validator (PendingWithdrawalTx validator)
                then (s, Failed ErrValOpBlocked)
                else depositApply E s caller toAddr v op txHash validator)))"

subsection \<open>Exit\<close>

text \<open>
  Lines 449-473: with delegating stake the sender must be among the exit (withdrawal)
  addresses of the rules in force; without, it must be the withdrawal address of the
  record, whose pointer is dereferenced.
\<close>

definition senderAllowed :: "Env \<Rightarrow> Validator \<Rightarrow> (DelegatingStakeRules \<Rightarrow> Address list) \<Rightarrow> Address \<Rightarrow> unit outcome" where
  "senderAllowed E v roles sender =
     (if HasDelegatingStake v then
        (case actualRules E v of
           Failed e \<Rightarrow> Failed e
         | Panicked \<Rightarrow> Panicked
         | Returned (isTrial, rules) \<Rightarrow>
             if sender \<in> set (roles rules) then Returned ()
             else Failed ErrSenderRejByDelegate)
      else case WithdrawalAddress v of
        None \<Rightarrow> Panicked
      | Some w \<Rightarrow> if sender \<noteq> w then Failed ErrInvalidFromAddresses else Returned ())"

text \<open>Lines 418-473: the checks of an exit request before the version gate.\<close>

definition exitChecks :: "Env \<Rightarrow> StateDB \<Rightarrow> Address \<Rightarrow> Address \<Rightarrow> ExitOp \<Rightarrow> (Validator \<times> uint64 option) outcome" where
  "exitChecks E s caller toAddr op =
     (if \<not> IsValidatorOp E toAddr then Failed ErrInvalidToAddress
      else case GetValidator s (ex_CreatorAddress op) of
        Inl e \<Rightarrow> Failed e
      | Inr None \<Rightarrow> Failed ErrUnknownValidator
      | Inr (Some validator) \<Rightarrow>
          if PubKey validator \<noteq> ex_PubKey op then Failed ErrMismatchPulicKey
          else
            (let exitAfterEpoch =
                   (case ex_ExitAfterEpoch op of
                      None \<Rightarrow> Some (SlotToEpoch (blockchain E) (CurrentSlot (blockchain E)) + 1)
                    | Some e \<Rightarrow> Some e) in
             if ActivationEra validator > EraInfoNumber (blockchain E)
             then Failed ErrNotActivatedValidator
             else if ExitEra validator \<noteq> MaxUint64 then Failed ErrValidatorIsOut
             else case senderAllowed E validator ExitRoles caller of
               Failed e \<Rightarrow> Failed e
             | Panicked \<Rightarrow> Panicked
             | Returned u \<Rightarrow> Returned (validator, exitAfterEpoch)))"

text \<open>Lines 512-525: the exit transaction is recorded, the record stored, the log written.\<close>

definition exitApply :: "Env \<Rightarrow> StateDB \<Rightarrow> Address \<Rightarrow> ExitOp \<Rightarrow> Hash \<Rightarrow> Validator \<Rightarrow> uint64 option \<Rightarrow> StateDB \<times> Ret outcome" where
  "exitApply E s toAddr op txHash validator exitAfterEpoch =
     (let validator1 = (updateValidatorVersionBySlot E validator)
                         \<lparr>PendingExitTx := Some txHash\<rparr> in
      case SetValidator validator1 s of
        Inl e \<Rightarrow> (s, Failed e)
      | Inr s1 \<Rightarrow>
          (AddLog (ExitRequestLog toAddr (ex_PubKey op) (ex_CreatorAddress op)
                     (Index validator1) exitAfterEpoch) s1,
           Returned (RetAddress (ex_CreatorAddress op))))"

definition validatorExit :: "Env \<Rightarrow> StateDB \<Rightarrow> Address \<Rightarrow> Address \<Rightarrow> ExitOp \<Rightarrow> Hash \<Rightarrow> StateDB \<times> Ret outcome" where
  "validatorExit E s caller toAddr op txHash =
     (case exitChecks E s caller toAddr op of
        Failed e \<Rightarrow> (s, Failed e)
      | Panicked \<Rightarrow> (s, Panicked)
      | Returned (validator, exitAfterEpoch) \<Rightarrow>
          if opBlocked E validator (PendingExitTx validator) then (s, Failed ErrValOpBlocked)
          else exitApply E s toAddr op txHash validator exitAfterEpoch)"

subsection \<open>Withdrawal\<close>

text \<open>
  Lines 593-635: the refund of a deposit that is insufficient to activate the validator.
  The sender must be a depositor, the amount must not exceed its stake, an amount of
  zero stands for the whole stake; the ledger is changed here only while the fork
  \<open>IsForkSlotValOpTracking\<close> is not active at the slot of the block.  The result is
  the amount for the log and the record.
\<close>

definition withdrawalRefund :: "Env \<Rightarrow> Validator \<Rightarrow> Address \<Rightarrow> int \<Rightarrow> Error + (int \<times> Validator)" where
  "withdrawalRefund E validator sender amount =
     (let stakeByAddr = StakeByAddress validator sender in
      if stakeByAddr = 0 then Inl ErrInvalidFromAddresses
      else if stakeByAddr < amount then Inl ErrInsufficientFundsForOp
      else
        (let opAmount = (if amount = 0 then stakeByAddr else amount) in
         if \<not> IsForkSlotValOpTracking (Config E) (ctx_Slot (ctx E)) then
           (case SubtractStake sender opAmount validator of
              Inl e \<Rightarrow> Inl e
            | Inr (newStake, validator1) \<Rightarrow>
                Inr (opAmount,
                     if newStake = 0 then RmStakeByAddress sender validator1 else validator1))
         else Inr (opAmount, validator)))"

text \<open>Lines 593-663: the three branches of a withdrawal request.\<close>

definition withdrawalBranch :: "Env \<Rightarrow> Validator \<Rightarrow> Address \<Rightarrow> int \<Rightarrow> (int \<times> Validator) outcome" where
  "withdrawalBranch E validator sender amount =
     (if ActivationEra validator = MaxUint64 \<and> TotalStake validator < effectiveBalanceWei E
      then (case withdrawalRefund E validator sender amount of
              Inl e \<Rightarrow> Failed e
            | Inr r \<Rightarrow> Returned r)
      else case senderAllowed E validator WithdrawalRoles sender of
        Failed e \<Rightarrow> Failed e
      | Panicked \<Rightarrow> Panicked
      | Returned u \<Rightarrow> Returned (amount, validator))"

text \<open>
  Lines 589-675: the withdrawal transaction is recorded, the branch taken, the record
  stored and the log written.
\<close>

definition withdrawalApply :: "Env \<Rightarrow> StateDB \<Rightarrow> Address \<Rightarrow> Address \<Rightarrow> WithdrawalOp \<Rightarrow> Hash \<Rightarrow> Validator \<Rightarrow> StateDB \<times> Ret outcome" where
  "withdrawalApply E s caller toAddr op txHash validator =
     (let validator1 = (updateValidatorVersionBySlot E validator)
                         \<lparr>PendingWithdrawalTx := Some txHash\<rparr> in
      case withdrawalBranch E validator1 caller (wd_Amount op) of
        Failed e \<Rightarrow> (s, Failed e)
      | Panicked \<Rightarrow> (s, Panicked)
      | Returned (opAmount, validator2) \<Rightarrow>
          (case SetValidator validator2 s of
             Inl e \<Rightarrow> (s, Failed e)
           | Inr s1 \<Rightarrow>
               (AddLog (WithdrawalRequestLog toAddr (PubKey validator2)
                          (wd_CreatorAddress op) (Index validator2)
                          (word_of_int (opAmount div BigGwei))) s1,
                Returned (RetAddress (wd_CreatorAddress op)))))"

definition validatorWithdrawal :: "Env \<Rightarrow> StateDB \<Rightarrow> Address \<Rightarrow> Address \<Rightarrow> WithdrawalOp \<Rightarrow> Hash \<Rightarrow> StateDB \<times> Ret outcome" where
  "validatorWithdrawal E s caller toAddr op txHash =
     (if \<not> IsValidatorOp E toAddr then (s, Failed ErrInvalidToAddress)
      else if \<not> BnCanCastToUint64 (wd_Amount op div BigGwei) then (s, Failed ErrInvalidAmount)
      else case GetValidator s (wd_CreatorAddress op) of
        Inl e \<Rightarrow> (s, Failed e)
      | Inr None \<Rightarrow> (s, Failed ErrUnknownValidator)
      | Inr (Some validator) \<Rightarrow>
          if opBlocked E validator (PendingWithdrawalTx validator)
          then (s, Failed ErrValOpBlocked)
          else withdrawalApply E s caller toAddr op txHash validator)"

subsection \<open>Validation of a sync operation\<close>

definition CompareValSync :: "SavedValidatorSync \<Rightarrow> ValidatorSyncOp \<Rightarrow> bool \<Rightarrow> bool" where
  "CompareValSync saved input isForkDelegate =
     (if sv_InitTxHash saved \<noteq> vs_InitTxHash input then False
      else if sv_OpType saved \<noteq> vs_OpType input then False
      else if sv_Creator saved \<noteq> vs_Creator input then False
      else if sv_Index saved \<noteq> vs_Index input then False
      else if \<not> isForkDelegate \<and> sv_ProcEpoch saved > vs_ProcEpoch input then False
      else if (case sv_Amount saved of
                 None \<Rightarrow> False
               | Some a \<Rightarrow> (case vs_Amount input of None \<Rightarrow> False | Some b \<Rightarrow> a \<noteq> b))
      then False
      else if (sv_Amount saved \<noteq> None \<and> vs_Amount input = None)
              \<or> (sv_Amount saved = None \<and> vs_Amount input \<noteq> None) then False
      else True)"

definition receiptSuccessful :: "Env \<Rightarrow> Hash \<Rightarrow> bool" where
  "receiptSuccessful E h =
     (case fst (GetTransactionReceipt (blockchain E) h) of
        None \<Rightarrow> False
      | Some rc \<Rightarrow> rc_Status rc = ReceiptStatusSuccessful)"

text \<open>
  An operation initialised by slashing has no initial transaction: the first twenty
  bytes of its \<open>InitTxHash\<close> are the bytes of the creator address.
\<close>

definition initBySlashing :: "ValidatorSyncOp \<Rightarrow> bool" where
  "initBySlashing op = ((ucast (drop_bit 96 (vs_InitTxHash op)) :: Address) = vs_Creator op)"

text \<open>Lines 1135-1187: the initial transaction, its operation and its receipt.\<close>

definition checkInitTx :: "Env \<Rightarrow> ValidatorSyncOp \<Rightarrow> Error option" where
  "checkInitTx E valSyncOp =
     (case GetTransaction (blockchain E) (vs_InitTxHash valSyncOp) of
        None \<Rightarrow> Some ErrTxNF
      | Some initTx \<Rightarrow>
        (case DecodeBytes (operation E) (tx_Data initTx) of
           Inl e \<Rightarrow> Some e
         | Inr iop \<Rightarrow>
           (let r =
              (case iop of
                 Deposit d \<Rightarrow>
                   if syncOpCode valSyncOp = DepositCode then Some ErrInvalidOpCode
                   else if dep_CreatorAddress d \<noteq> vs_Creator valSyncOp then Some ErrInvalidCreator
                   else None
               | Exit x \<Rightarrow>
                   if syncOpCode valSyncOp = ExitCode then Some ErrInvalidOpCode
                   else if ex_CreatorAddress x \<noteq> vs_Creator valSyncOp then Some ErrInvalidCreator
                   else (case ex_ExitAfterEpoch x of
                           None \<Rightarrow> None
                         | Some ep \<Rightarrow>
                             if ep > vs_ProcEpoch valSyncOp then Some ErrInvalidOpEpoch else None)
               | Withdrawal w \<Rightarrow>
                   if syncOpCode valSyncOp = WithdrawalCode then Some ErrInvalidOpCode
                   else if wd_CreatorAddress w \<noteq> vs_Creator valSyncOp then Some ErrInvalidCreator
                   else if vs_Version valSyncOp = OpVer1 \<and> vs_Balance valSyncOp = None
                   then Some (ErrOperation ErrNoBalance)
                   else None
               | ValidatorSync v \<Rightarrow> Some ErrInvalidOpCode)
            in case r of
                 Some e \<Rightarrow> Some e
               | None \<Rightarrow>
                 (case fst (GetTransactionReceipt (blockchain E) (vs_InitTxHash valSyncOp)) of
                    None \<Rightarrow> Some ErrReceiptNF
                  | Some rc \<Rightarrow>
                      if rc_Status rc \<noteq> ReceiptStatusSuccessful
                      then Some ErrInvalidReceiptStatus else None))))"

definition ValidateValidatorSyncOp :: "Env \<Rightarrow> ValidatorSyncOp \<Rightarrow> uint64 \<Rightarrow> Hash \<Rightarrow> Error option" where
  "ValidateValidatorSyncOp E valSyncOp applySlot txHash =
     (case GetValidatorSyncData (blockchain E) (vs_InitTxHash valSyncOp) of
        None \<Rightarrow> Some ErrNoSavedValSyncOp
      | Some savedValSync \<Rightarrow>
        (let isForkDelegate = IsForkSlotDelegate (Config E) applySlot in
         if \<not> isForkDelegate \<and> SlotToEpoch (blockchain E) applySlot > vs_ProcEpoch valSyncOp
         then Some ErrInvalidOpEpoch
         else if \<not> CompareValSync savedValSync valSyncOp isForkDelegate
         then Some ErrMismatchValSyncOp
         else if (case sv_TxHash savedValSync of
                    None \<Rightarrow> False
                  | Some h \<Rightarrow> h \<noteq> txHash \<and> (\<not> isForkDelegate \<or> receiptSuccessful E h))
         then Some ErrValSyncTxExists
         else if initBySlashing valSyncOp then None
         else checkInitTx E valSyncOp))"

subsection \<open>Activation and deactivation\<close>

definition validatorActivate :: "Env \<Rightarrow> StateDB \<Rightarrow> ValidatorSyncOp \<Rightarrow> StateDB \<times> Ret outcome" where
  "validatorActivate E s op =
     (case GetValidator s (vs_Creator op) of
        Inl e \<Rightarrow> (s, Failed e)
      | Inr None \<Rightarrow> (s, Failed ErrUnknownValidator)
      | Inr (Some validator) \<Rightarrow>
          if IsForkSlotValOpTracking (Config E) (ctx_Slot (ctx E))
             \<and> ActivationEra validator \<noteq> MaxUint64
          then (s, Failed ErrValidatorActivated)
          else
            (let validator1 = ResetDepositTxs (updateValidatorVersionBySlot E validator) in
             case EpochToEra (blockchain E) (vs_ProcEpoch op) of
               None \<Rightarrow> (s, Panicked)
             | Some opEra \<Rightarrow>
               (let validator2 = UnsetStake
                      (validator1\<lparr>ActivationEra := era_Number opEra + postpone,
                                   Index := vs_Index op\<rparr>) in
                case SetValidator validator2 s of
                  Inl e \<Rightarrow> (s, Failed e)
                | Inr s1 \<Rightarrow>
                  (let s2 = AddValidatorToList (vs_Index op) (vs_Creator op) s1 in
                   if IsForkSlotDelegate (Config E) (ctx_Slot (ctx E)) then
                     (case PackActivateLogData (txlog E) (vs_InitTxHash op) (vs_Creator op)
                             (vs_ProcEpoch op) (vs_Index op) of
                        Inl e \<Rightarrow> (s2, Failed e)
                      | Inr logData \<Rightarrow>
                          (AddLog (ActivateLog (GetValidatorsStateAddress E) logData
                                     (vs_Creator op) (vs_InitTxHash op)) s2,
                           Returned (RetAddress (vs_Creator op))))
                   else (s2, Returned (RetAddress (vs_Creator op)))))))"

definition validatorDeactivate :: "Env \<Rightarrow> StateDB \<Rightarrow> ValidatorSyncOp \<Rightarrow> StateDB \<times> Ret outcome" where
  "validatorDeactivate E s op =
     (case GetValidator s (vs_Creator op) of
        Inl e \<Rightarrow> (s, Failed e)
      | Inr None \<Rightarrow> (s, Failed ErrUnknownValidator)
      | Inr (Some validator) \<Rightarrow>
          if ExitEra validator \<noteq> MaxUint64 then (s, Failed ErrValidatorIsOut)
          else case EpochToEra (blockchain E) (vs_ProcEpoch op) of
            None \<Rightarrow> (s, Panicked)
          | Some opEra \<Rightarrow>
            (let opEraNr = (if IsForkSlotValSyncProc (Config E) (ctx_Slot (ctx E))
                            then ctx_Era (ctx E) else era_Number opEra) in
             if ActivationEra validator \<ge> opEraNr then (s, Failed ErrNotActivatedValidator)
             else
               (let validator1 = (updateValidatorVersionBySlot E validator)
                                   \<lparr>PendingExitTx := None,
                                    ExitEra := era_Number opEra + postpone\<rparr> in
                case SetValidator validator1 s of
                  Inl e \<Rightarrow> (s, Failed e)
                | Inr s1 \<Rightarrow>
                  if IsForkSlotDelegate (Config E) (ctx_Slot (ctx E)) then
                    (case PackDeactivateLogData (txlog E) (vs_InitTxHash op) (vs_Creator op)
                            (vs_ProcEpoch op) (vs_Index op) of
                       Inl e \<Rightarrow> (s1, Failed e)
                     | Inr logData \<Rightarrow>
                         (AddLog (DeactivateLog (GetValidatorsStateAddress E) logData
                                    (vs_Creator op) (vs_InitTxHash op)) s1,
                          Returned (RetAddress (vs_Creator op))))
                  else (s1, Returned (RetAddress (vs_Creator op))))))"

subsection \<open>Balance update\<close>

text \<open>
  Lines 799-849: a record of version \<open>Ver1\<close> must have a pending withdrawal.  Without
  one the operation passes only in the transition period after the fork, when its
  initial transaction was applied before the fork; with another one than the initial
  transaction it is blocked while that one has not expired.  The header of the block of
  the initial transaction is read without a nil check.
\<close>

definition updateBalanceChecks :: "Env \<Rightarrow> Validator \<Rightarrow> ValidatorSyncOp \<Rightarrow> unit outcome" where
  "updateBalanceChecks E validator op =
     (if SchemaVersion validator = Ver1 then
        (case PendingWithdrawalTx validator of
           None \<Rightarrow>
             (let expiration = ValidatorOpExpireSlots (Config E);
                  checkSlot = (if ctx_Slot (ctx E) > expiration
                               then ctx_Slot (ctx E) - expiration else 0) in
              if IsForkSlotValOpTracking (Config E) checkSlot then Failed ErrNoActiveWithdrawalOp
              else case GetTransactionReceipt (blockchain E) (vs_InitTxHash op) of
                (None, blHash) \<Rightarrow> Failed ErrInitTxReceiptNotFound
              | (Some rc, blHash) \<Rightarrow>
                  if rc_Status rc \<noteq> ReceiptStatusSuccessful then Failed ErrInitTxReceiptFailed
                  else case GetHeaderByHash (blockchain E) blHash of
                    None \<Rightarrow> Panicked
                  | Some initTxHeader \<Rightarrow>
                      if IsForkSlotValOpTracking (Config E) (hdr_Slot initTxHeader)
                      then Failed ErrNoActiveWithdrawalOp
                      else Returned ())
         | Some prevOpTx \<Rightarrow>
             if prevOpTx \<noteq> vs_InitTxHash op then
               (case GetTransactionReceipt (blockchain E) prevOpTx of
                  (rc, blHash) \<Rightarrow>
                    if prevOpNotExpired E rc blHash then Failed ErrValOpBlocked
                    else Returned ())
             else Returned ())
      else Returned ())"

text \<open>
  Lines 871-927: the refund of an insufficient deposit goes to the sender of the initial
  transaction, which must be a withdrawal; once the fork
  \<open>IsForkSlotValOpTracking\<close> is active the amount, capped at the stake of that sender,
  is taken from the ledger here.
\<close>

definition updateBalanceRefund :: "Env \<Rightarrow> Validator \<Rightarrow> ValidatorSyncOp \<Rightarrow> (Address \<times> Validator) outcome" where
  "updateBalanceRefund E validator op =
     (case GetTransaction (blockchain E) (vs_InitTxHash op) of
        None \<Rightarrow> Failed ErrTxNF
      | Some initTx \<Rightarrow>
        (case DecodeBytes (operation E) (tx_Data initTx) of
           Inl e \<Rightarrow> Failed e
         | Inr iop \<Rightarrow>
             if OpCode iop \<noteq> WithdrawalCode then Failed ErrInvalidOpCode
             else
               (let iTxFrom = tx_Sender initTx in
                if IsForkSlotValOpTracking (Config E) (ctx_Slot (ctx E)) then
                  (case vs_Amount op of
                     None \<Rightarrow> Panicked
                   | Some amount \<Rightarrow>
                     (let curDepositStake = StakeByAddress validator iTxFrom;
                          wDepositAmt = (if curDepositStake < amount
                                         then curDepositStake else amount) in
                      case SubtractStake iTxFrom wDepositAmt validator of
                        Inl e \<Rightarrow> Failed e
                      | Inr (newStake, validator1) \<Rightarrow>
                          Returned (iTxFrom,
                                    if newStake = 0 then RmStakeByAddress iTxFrom validator1
                                    else validator1)))
                else Returned (iTxFrom, validator))))"

text \<open>Lines 989-1003: the parts of the amount that are profit and stake.\<close>

definition profitAndStake :: "Env \<Rightarrow> int \<Rightarrow> int \<Rightarrow> int \<times> int" where
  "profitAndStake E balance amount =
     (let opBalance = balance + amount;
          profitBalance0 = opBalance - effectiveBalanceWei E;
          profitBalance = (if profitBalance0 < 0 then 0 else profitBalance0);
          profitOpAmt = profitBalance - amount
      in if profitOpAmt \<le> 0 then (profitBalance, amount - profitBalance)
         else (profitOpAmt, 0))"

text \<open>
  Lines 1010-1030 and 1034-1054: every address of a share map is credited with the
  hundredth part of the portion, by integer division, times its share.
\<close>

fun applyShares :: "RuleType \<Rightarrow> bool \<Rightarrow> int \<Rightarrow> (Address \<times> 8 word) list \<Rightarrow> StateDB \<times> ShareRuleApplying list \<Rightarrow> StateDB \<times> ShareRuleApplying list" where
  "applyShares ruleType isTrial percent [] (s, upBalInfo) = (s, upBalInfo)"
| "applyShares ruleType isTrial percent ((adr, share) # rest) (s, upBalInfo) =
     (let amt = percent * uint share in
      applyShares ruleType isTrial percent rest
        (AddBalance adr amt s,
         upBalInfo @ [\<lparr>sra_Address = adr, sra_RuleType = ruleType,
                        sra_IsTrial = isTrial, sra_Amount = amt\<rparr>]))"

definition distribute :: "RuleType \<Rightarrow> bool \<Rightarrow> int \<Rightarrow> (Address \<times> 8 word) list \<Rightarrow> StateDB \<times> ShareRuleApplying list \<Rightarrow> StateDB \<times> ShareRuleApplying list" where
  "distribute ruleType isTrial portion shares acc =
     (if portion > 0 then applyShares ruleType isTrial (portion div 100) shares acc else acc)"

definition applyDelegatingStakeRules :: "Env \<Rightarrow> StateDB \<Rightarrow> ValidatorSyncOp \<Rightarrow> Validator \<Rightarrow> StateDB \<times> Ret outcome" where
  "applyDelegatingStakeRules E s op validator =
     (if \<not> IsForkSlotDelegate (Config E) (ctx_Slot (ctx E))
      then (s, Failed (ErrOperation ErrDelegateForkRequire))
      else case actualRules E validator of
        Failed e \<Rightarrow> (s, Failed e)
      | Panicked \<Rightarrow> (s, Panicked)
      | Returned (isTrial, rules) \<Rightarrow>
        (case vs_Balance op of
           None \<Rightarrow> (s, Panicked)
         | Some balance \<Rightarrow>
           (case vs_Amount op of
              None \<Rightarrow> (s, Panicked)
            | Some amount \<Rightarrow>
              (case profitAndStake E balance amount of
                 (profitOpAmt, stakeOpAmt) \<Rightarrow>
                   (case distribute RuleStakeShare isTrial stakeOpAmt (StakeShare rules)
                           (distribute RuleProfitShare isTrial profitOpAmt (ProfitShare rules)
                              (s, [])) of
                      (s1, upBalInfo) \<Rightarrow>
                        (case PackUpdateBalanceLogData (txlog E) (vs_InitTxHash op)
                                (vs_Creator op) (vs_ProcEpoch op) amount of
                           Inl e \<Rightarrow> (s1, Failed e)
                         | Inr logData \<Rightarrow>
                           (let s2 = AddLog (UpdateBalanceLog (GetValidatorsStateAddress E)
                                               logData (vs_Creator op) (vs_InitTxHash op)
                                               None) s1 in
                            case PackDelegatingStakeLogData (txlog E) upBalInfo of
                              Inl e \<Rightarrow> (s2, Failed e)
                            | Inr logData2 \<Rightarrow>
                                (AddLog (DelegatingStakeLog (GetValidatorsStateAddress E)
                                           logData2 upBalInfo) s2,
                                 Returned (RetAddress (vs_Creator op))))))))))"

definition validatorUpdateBalance :: "Env \<Rightarrow> StateDB \<Rightarrow> ValidatorSyncOp \<Rightarrow> StateDB \<times> Ret outcome" where
  "validatorUpdateBalance E s op =
     (case GetValidator s (vs_Creator op) of
        Inl e \<Rightarrow> (s, Failed e)
      | Inr None \<Rightarrow> (s, Failed ErrUnknownValidator)
      | Inr (Some validator0) \<Rightarrow>
        (case updateBalanceChecks E validator0 op of
           Failed e \<Rightarrow> (s, Failed e)
         | Panicked \<Rightarrow> (s, Panicked)
         | Returned u \<Rightarrow>
           (let validator = (updateValidatorVersionBySlot E validator0)
                               \<lparr>PendingWithdrawalTx := None\<rparr>;
                branch =
                  (if ActivationEra validator = MaxUint64
                      \<and> TotalStake validator < effectiveBalanceWei E
                   then (case updateBalanceRefund E validator op of
                           Failed e \<Rightarrow> Inl (s, Failed e)
                         | Panicked \<Rightarrow> Inl (s, Panicked)
                         | Returned r \<Rightarrow> Inr r)
                   else if HasDelegatingStake validator
                   then Inl (applyDelegatingStakeRules E s op validator)
                   else (case WithdrawalAddress validator of
                           None \<Rightarrow> Inl (s, Failed ErrNoWithdrawalCred)
                         | Some w \<Rightarrow> Inr (w, validator)))
            in case branch of
                 Inl r \<Rightarrow> r
               | Inr (withdrawalTo, validator1) \<Rightarrow>
                 (case SetValidator validator1 s of
                    Inl e \<Rightarrow> (s, Failed e)
                  | Inr s1 \<Rightarrow>
                    (case vs_Amount op of
                       None \<Rightarrow> (s1, Panicked)
                     | Some amount \<Rightarrow>
                       (let s2 = AddBalance withdrawalTo amount s1 in
                        if IsForkSlotDelegate (Config E) (ctx_Slot (ctx E)) then
                          (case PackUpdateBalanceLogData (txlog E) (vs_InitTxHash op)
                                  (vs_Creator op) (vs_ProcEpoch op) amount of
                             Inl e \<Rightarrow> (s2, Failed e)
                           | Inr logData \<Rightarrow>
                               (AddLog (UpdateBalanceLog (GetValidatorsStateAddress E)
                                          logData (vs_Creator op) (vs_InitTxHash op)
                                          (Some withdrawalTo)) s2,
                                Returned (RetAddress (vs_Creator op))))
                        else (s2, Returned (RetAddress (vs_Creator op)))))))))"

subsection \<open>Dispatch\<close>

definition syncOpProcessing :: "Env \<Rightarrow> StateDB \<Rightarrow> ValidatorSyncOp \<Rightarrow> Message \<Rightarrow> StateDB \<times> Ret outcome" where
  "syncOpProcessing E s op msg =
     (case ValidateValidatorSyncOp E op (ctx_Slot (ctx E)) (msg_TxHash msg) of
        Some e \<Rightarrow> (s, Failed e)
      | None \<Rightarrow>
        (case syncOpCode op of
           ActivateCode \<Rightarrow> validatorActivate E s op
         | DeactivateCode \<Rightarrow> validatorDeactivate E s op
         | UpdateBalanceCode \<Rightarrow> validatorUpdateBalance E s op
         | _ \<Rightarrow> (s, Returned RetNil)))"

text \<open>
  \<open>Processor.Call\<close>: the nonce of the caller is incremented, then the snapshot is
  taken, then the operation runs; when it returns an error the state is reverted to the
  snapshot.  A panic returns nothing and reverts nothing.
\<close>

definition Call :: "Env \<Rightarrow> StateDB \<Rightarrow> Address \<Rightarrow> Address \<Rightarrow> int option \<Rightarrow> Message \<Rightarrow> StateDB \<times> Ret outcome" where
  "Call E s caller toAddr val msg =
     (case DecodeBytes (operation E) (msg_Data msg) of
        Inl e \<Rightarrow> (s, Failed e)
      | Inr op \<Rightarrow>
        (let nonce = GetNonce s caller;
             s0 = SetNonce caller (nonce + 1) s;
             snapshot = Snapshot s0;
             r = (case op of
                    Deposit v \<Rightarrow> validatorDeposit E s0 caller toAddr val v (msg_TxHash msg)
                  | ValidatorSync v \<Rightarrow> syncOpProcessing E s0 v msg
                  | Exit v \<Rightarrow> validatorExit E s0 caller toAddr v (msg_TxHash msg)
                  | Withdrawal v \<Rightarrow> validatorWithdrawal E s0 caller toAddr v (msg_TxHash msg))
         in case snd r of
              Failed e \<Rightarrow> (RevertToSnapshot snapshot (fst r), Failed e)
            | _ \<Rightarrow> r))"

section \<open>Fixtures\<close>

text \<open>
  A chain configuration, a chain and a state on which the operations are run: the
  validators state address is \<open>0x1000\<close>, the delegate fork is active from slot 100,
  the operation tracking fork from slot 200, the sync processing fork from slot 300, an
  operation expires after 50 slots and the effective balance is 3200 wat.  An epoch has
  8 slots and an era 4 epochs; the block context is in era 7, the era of slot 250.
\<close>

text \<open>The fixture of \<open>TestParamsDelegatingStakeRules\<close> (test_utils.go).\<close>

definition testRules :: DelegatingStakeRules where
  "testRules =
     \<lparr> ProfitShare = [(0x1111111111111111111111111111111111111111, 10),
                      (0x2222222222222222222222222222222222222222, 30),
                      (0x3333333333333333333333333333333333333333, 60)],
       StakeShare = [(0x4444444444444444444444444444444444444444, 70),
                     (0x5555555555555555555555555555555555555555, 30)],
       ExitRoles = [0x6666666666666666666666666666666666666666],
       WithdrawalRoles = [0x7777777777777777777777777777777777777777] \<rparr>"

definition cfg0 :: ChainConfig where
  "cfg0 = \<lparr> ValidatorsStateAddress = Some 0x1000,
            IsForkSlotDelegate = (\<lambda>slot. 100 \<le> slot),
            IsForkSlotValOpTracking = (\<lambda>slot. 200 \<le> slot),
            IsForkSlotValSyncProc = (\<lambda>slot. 300 \<le> slot),
            ValidatorOpExpireSlots = 50,
            EffectiveBalance = 3200 \<rparr>"

definition depA :: DepositOp where
  "depA = \<lparr> dep_PubKey = 0xAA, dep_CreatorAddress = 0xC1, dep_WithdrawalAddress = 0xD1,
            dep_Signature = 0x51, dep_DelegatingStake = None \<rparr>"

text \<open>An activation initialised by slashing: its hash starts with the creator address.\<close>

definition actA :: ValidatorSyncOp where
  "actA = \<lparr> vs_Version = OpVer1, vs_OpType = Activate, vs_ProcEpoch = 20, vs_Index = 3,
            vs_Creator = 0xC1, vs_Amount = None, vs_Balance = None,
            vs_InitTxHash = push_bit 96 0xC1 \<rparr>"

definition savedA :: SavedValidatorSync where
  "savedA = \<lparr> sv_OpType = Activate, sv_ProcEpoch = 20, sv_Index = 3, sv_Creator = 0xC1,
              sv_Amount = None, sv_InitTxHash = push_bit 96 0xC1, sv_TxHash = None \<rparr>"

definition wdP :: WithdrawalOp where
  "wdP = \<lparr> wd_CreatorAddress = 0xC1, wd_Amount = 1000000000000000000 \<rparr>"

definition exP :: ExitOp where
  "exP = \<lparr> ex_PubKey = 0xAA, ex_CreatorAddress = 0xC1, ex_ExitAfterEpoch = Some 40 \<rparr>"

text \<open>
  A balance update of the creator \<open>0xC1\<close> for the withdrawal transaction \<open>0x55\<close>:
  the amount \<open>a\<close> is withdrawn and the balance \<open>b\<close> is left.
\<close>

definition opD :: "int \<Rightarrow> int \<Rightarrow> ValidatorSyncOp" where
  "opD a b = \<lparr> vs_Version = OpVer1, vs_OpType = UpdateBalance, vs_ProcEpoch = 30,
               vs_Index = 3, vs_Creator = 0xC1, vs_Amount = Some a, vs_Balance = Some b,
               vs_InitTxHash = 0x55 \<rparr>"

definition decode0 :: "bytes \<Rightarrow> Error + Operation" where
  "decode0 b = (if b = [1] then Inr (Deposit depA)
                else if b = [3] then Inr (Withdrawal wdP)
                else if b = [4] then Inr (ValidatorSync actA)
                else if b = [5] then Inr (ValidatorSync (opD 100 3200000000000000000000))
                else Inl (ErrOperation ErrOpDecode))"

definition ops0 :: OperationPkg where
  "ops0 = \<lparr> DecodeBytes = decode0,
            VerifyDepositSig = (\<lambda>sig pk c w. if sig = 0x51 then None
                                           else Some (ErrOperation ErrBadSignature)),
            NewDelegatingStakeData = Inr,
            MarshalDelegatingStake = (\<lambda>d. Inr []) \<rparr>"

definition txlog0 :: TxLogPkg where
  "txlog0 = \<lparr> PackActivateLogData = (\<lambda>h c e i. Inr []),
              PackDeactivateLogData = (\<lambda>h c e i. Inr []),
              PackUpdateBalanceLogData = (\<lambda>h c e a. Inr []),
              PackDelegatingStakeLogData = (\<lambda>l. Inr []) \<rparr>"

definition chain0 :: Blockchain where
  "chain0 = \<lparr> EpochToEra = (\<lambda>e. Some \<lparr>era_Number = drop_bit 2 e,
                                         era_From = push_bit 2 (drop_bit 2 e),
                                         era_To = push_bit 2 (drop_bit 2 e) + 3\<rparr>),
              ReadEra = (\<lambda>n. Some \<lparr>era_Number = n, era_From = push_bit 2 n,
                                      era_To = push_bit 2 n + 3\<rparr>),
              SlotToEpoch = (\<lambda>slot. drop_bit 3 slot),
              CurrentSlot = 250,
              SlotOfEpochStart = (\<lambda>e. Inr (push_bit 3 e)),
              EraInfoNumber = 7,
              GetValidatorSyncData = (\<lambda>h. if h = push_bit 96 0xC1 then Some savedA else None),
              GetTransaction = (\<lambda>h. None),
              GetTransactionReceipt = (\<lambda>h. (None, 0)),
              GetHeaderByHash = (\<lambda>h. None) \<rparr>"

definition env0 :: "uint64 \<Rightarrow> Env" where
  "env0 slot = \<lparr> ctx = \<lparr>ctx_Slot = slot, ctx_Era = 7, ctx_BlockHash = 0xB10C\<rparr>,
                 Config = cfg0, blockchain = chain0, operation = ops0, txlog = txlog0 \<rparr>"

text \<open>A state without validators in which the account \<open>0xF1\<close> holds 50 wat.\<close>

definition state0 :: StateDB where
  "state0 = \<lparr> Balance = (\<lambda>a. if a = 0xF1 then 50000000000000000000 else 0),
              Nonce = (\<lambda>a. 0), Validators = (\<lambda>a. None), DepositCount = 0,
              ValidatorsList = [], Logs = [] \<rparr>"

definition msgDeposit :: Message where
  "msgDeposit = \<lparr> msg_TxHash = 0x77, msg_Data = [1] \<rparr>"

definition msgActivate :: Message where
  "msgActivate = \<lparr> msg_TxHash = 0x78, msg_Data = [4] \<rparr>"

text \<open>The validator of \<open>depA\<close> after a deposit of 10 wat by \<open>0xF1\<close>.\<close>

definition valA :: Validator where
  "valA = (NewValidator 0xAA 0xC1 (Some 0xD1))
            \<lparr> StakeLedger := [(0xF1, 10000000000000000000)], DepositTxs := [0x77] \<rparr>"

definition stateA :: StateDB where
  "stateA = state0 \<lparr> Validators := (\<lambda>a. if a = 0xC1 then Some valA else None) \<rparr>"

text \<open>The same chain with an encoder that fails on the activation log.\<close>

definition envPackFails :: Env where
  "envPackFails = (env0 250) \<lparr> txlog := txlog0 \<lparr> PackActivateLogData := (\<lambda>h c e i. Inl ErrRlp) \<rparr> \<rparr>"

text \<open>The validator \<open>valA\<close> once activated in era 7.\<close>

definition stateActivated :: StateDB where
  "stateActivated =
     state0 \<lparr> Validators := (\<lambda>a. if a = 0xC1
                                   then Some (valA \<lparr> ActivationEra := 7, Index := 3,
                                                     StakeLedger := [], DepositTxs := [] \<rparr>)
                                   else None) \<rparr>"

text \<open>
  The words of the specification about a pending transaction \<open>h\<close>: it is in the block
  being processed; the header of its block is known and the current slot is below the
  slot of that block plus the expiration window, a sum of \<open>uint64\<close> as the code
  computes it.  \<open>windowFits\<close> says that this sum does not wrap around.
\<close>

definition pendingInSameBlock :: "Env \<Rightarrow> Hash \<Rightarrow> bool" where
  "pendingInSameBlock E h =
     (snd (GetTransactionReceipt (blockchain E) h) \<noteq> 0
      \<and> snd (GetTransactionReceipt (blockchain E) h) = ctx_BlockHash (ctx E))"

definition withinExpirationWindow :: "Env \<Rightarrow> Hash \<Rightarrow> bool" where
  "withinExpirationWindow E h =
     (case GetHeaderByHash (blockchain E) (snd (GetTransactionReceipt (blockchain E) h)) of
        None \<Rightarrow> False
      | Some header \<Rightarrow>
          ctx_Slot (ctx E) < hdr_Slot header + ValidatorOpExpireSlots (Config E))"

definition windowFits :: "Env \<Rightarrow> Hash \<Rightarrow> bool" where
  "windowFits E h =
     (case GetHeaderByHash (blockchain E) (snd (GetTransactionReceipt (blockchain E) h)) of
        None \<Rightarrow> True
      | Some header \<Rightarrow> unat (hdr_Slot header) + unat (ValidatorOpExpireSlots (Config E)) < 2 ^ 64)"

text \<open>
  A chain on which transaction \<open>0x55\<close> succeeded in block \<open>0xB0\<close> at slot 230,
  \<open>0x56\<close> failed in the block being processed and \<open>0x57\<close> failed in block
  \<open>0xB0\<close>.
\<close>

definition chainP :: Blockchain where
  "chainP = chain0
     \<lparr> GetTransactionReceipt :=
         (\<lambda>h. if h = 0x55 then (Some \<lparr>rc_Status = 1\<rparr>, 0xB0)
              else if h = 0x56 then (Some \<lparr>rc_Status = 0\<rparr>, 0xB10C)
              else if h = 0x57 then (Some \<lparr>rc_Status = 0\<rparr>, 0xB0)
              else (None, 0)),
       GetHeaderByHash :=
         (\<lambda>b. if b = 0xB0 then Some \<lparr>hdr_Slot = 230\<rparr>
              else if b = 0xB10C then Some \<lparr>hdr_Slot = 250\<rparr>
              else None) \<rparr>"

definition envP :: "uint64 \<Rightarrow> Env" where
  "envP slot = (env0 slot) \<lparr> blockchain := chainP \<rparr>"

text \<open>The same chain at slot 250 with the greatest expiration window a \<open>uint64\<close> holds.\<close>

definition envW :: Env where
  "envW = (envP 250) \<lparr> Config := cfg0 \<lparr> ValidatorOpExpireSlots := 0xFFFFFFFFFFFFFFFF \<rparr> \<rparr>"

text \<open>
  An activated validator of version \<open>Ver1\<close> whose pending withdrawal and pending exit
  transaction is \<open>h\<close>, and the state that holds it.
\<close>

definition valP :: "Hash \<Rightarrow> Validator" where
  "valP h = (NewValidator 0xAA 0xC1 (Some 0xD1))
              \<lparr> Index := 3, ActivationEra := 5, PendingExitTx := Some h,
                PendingWithdrawalTx := Some h, SchemaVersion := Ver1 \<rparr>"

definition stateP :: "Hash \<Rightarrow> StateDB" where
  "stateP h = state0 \<lparr> Validators := (\<lambda>a. if a = 0xC1 then Some (valP h) else None) \<rparr>"

text \<open>
  The words of the specification about a sync operation and the saved record: they agree
  on \<open>InitTxHash\<close>, \<open>OpType\<close>, \<open>Creator\<close>, \<open>Index\<close> and \<open>Amount\<close>, and
  before the delegate fork the \<open>ProcEpoch\<close> of the saved record is not after that of
  the operation.
\<close>

definition matchesSaved :: "SavedValidatorSync \<Rightarrow> ValidatorSyncOp \<Rightarrow> bool \<Rightarrow> bool" where
  "matchesSaved saved op isForkDelegate =
     (sv_InitTxHash saved = vs_InitTxHash op \<and> sv_OpType saved = vs_OpType op
      \<and> sv_Creator saved = vs_Creator op \<and> sv_Index saved = vs_Index op
      \<and> (isForkDelegate \<or> sv_ProcEpoch saved \<le> vs_ProcEpoch op)
      \<and> sv_Amount saved = vs_Amount op)"

text \<open>
  A chain with four saved activations of the creator \<open>0xC1\<close>: the first without a
  transaction, the second with the successful transaction \<open>0x55\<close>, the third with the
  failed transaction \<open>0x57\<close>, the fourth for epoch 5.
\<close>

definition keyS :: "Hash \<Rightarrow> Hash" where
  "keyS n = push_bit 96 0xC1 + n"

definition savedS :: "Hash \<Rightarrow> Hash option \<Rightarrow> SavedValidatorSync" where
  "savedS n h = savedA \<lparr> sv_InitTxHash := keyS n, sv_TxHash := h \<rparr>"

definition chainS :: Blockchain where
  "chainS = chainP
     \<lparr> GetValidatorSyncData :=
         (\<lambda>k. if k = keyS 0 then Some (savedS 0 None)
              else if k = keyS 1 then Some (savedS 1 (Some 0x55))
              else if k = keyS 2 then Some (savedS 2 (Some 0x57))
              else if k = keyS 3 then Some ((savedS 3 None) \<lparr>sv_ProcEpoch := 5\<rparr>)
              else None) \<rparr>"

definition envS :: "uint64 \<Rightarrow> Env" where
  "envS slot = (env0 slot) \<lparr> blockchain := chainS \<rparr>"

definition actS :: "Hash \<Rightarrow> ValidatorSyncOp" where
  "actS n = actA \<lparr> vs_InitTxHash := keyS n \<rparr>"

text \<open>
  The words of the specification about the distribution of a portion over a share map:
  an address with a share of \<open>s\<close> percent is credited with the hundredth part of the
  portion, by integer division, times \<open>s\<close>; \<open>credited\<close> is the sum over the map.
  Nothing is distributed of a portion that is not positive.
\<close>

definition credit :: "int \<Rightarrow> (Address \<times> 8 word) list \<Rightarrow> Address \<Rightarrow> int" where
  "credit portion shares a =
     (if portion > 0
      then (case map_of shares a of None \<Rightarrow> 0 | Some share \<Rightarrow> (portion div 100) * uint share)
      else 0)"

definition credited :: "int \<Rightarrow> (Address \<times> 8 word) list \<Rightarrow> int" where
  "credited portion shares =
     (if portion > 0 then (portion div 100) * int (shareSum shares) else 0)"

text \<open>
  A validator with delegating stake, activated in era 5 and out of its trial period of
  10 slots, whose pending withdrawal transaction is \<open>0x55\<close>; the chain holds the
  saved balance update for that transaction and the transaction itself, a withdrawal
  request sent by the withdrawal role \<open>0x77...77\<close>.
\<close>

definition dsD :: DelegatingStakeData where
  "dsD = \<lparr> Rules = testRules, TrialPeriod = 10,
           TrialRules = testRules \<lparr> ProfitShare :=
                          [(0x7777777777777777777777777777777777777777, 100)] \<rparr> \<rparr>"

definition valD :: Validator where
  "valD = (NewValidator 0xAA 0xC1 (Some 0))
            \<lparr> Index := 3, ActivationEra := 5, PendingWithdrawalTx := Some 0x55,
              DelegatingStake := Some dsD, SchemaVersion := Ver1 \<rparr>"

definition stateD :: StateDB where
  "stateD = state0 \<lparr> Validators := (\<lambda>a. if a = 0xC1 then Some valD else None) \<rparr>"

definition savedD :: SavedValidatorSync where
  "savedD = \<lparr> sv_OpType = UpdateBalance, sv_ProcEpoch = 30, sv_Index = 3,
              sv_Creator = 0xC1, sv_Amount = Some 100, sv_InitTxHash = 0x55,
              sv_TxHash = None \<rparr>"

definition chainD :: Blockchain where
  "chainD = chainP
     \<lparr> GetValidatorSyncData := (\<lambda>k. if k = 0x55 then Some savedD else None),
       GetTransaction :=
         (\<lambda>h. if h = 0x55
              then Some \<lparr> tx_Data = [3],
                          tx_Sender = 0x7777777777777777777777777777777777777777 \<rparr>
              else None) \<rparr>"

definition envD :: Env where
  "envD = (env0 250) \<lparr> blockchain := chainD \<rparr>"

definition msgUpdateBalance :: Message where
  "msgUpdateBalance = \<lparr> msg_TxHash = 0x7A, msg_Data = [5] \<rparr>"







section \<open>Checked properties\<close>

subsection \<open>Facts about the helpers\<close>

lemma depositNewValidator_fields:
  assumes "depositNewValidator E op = Inr v0"
  shows "PubKey v0 = dep_PubKey op" "CreatorAddress v0 = dep_CreatorAddress op"
    "WithdrawalAddress v0 = Some (dep_WithdrawalAddress op)"
    "ActivationEra v0 = MaxUint64" "ExitEra v0 = MaxUint64" "StakeLedger v0 = []"
    "DepositTxs v0 = []" "PendingWithdrawalTx v0 = None" "PendingExitTx v0 = None"
    "SchemaVersion v0 = NoVer"
  using assms
  by (auto simp: depositNewValidator_def NewValidator_def Let_def
           split: option.splits if_splits sum.splits)

lemma deposit_checks_min:
  assumes "IsValidatorOp E toAddr"
    and "VerifyDepositSig (operation E) (dep_Signature op) (dep_PubKey op)
           (dep_CreatorAddress op) (dep_WithdrawalAddress op) = None"
  shows "depositChecks E s caller toAddr (Some MinDepositVal) op =
           (if Balance s caller < MinDepositVal then Inl ErrInsufficientFundsForOp
            else Inr MinDepositVal)"
    and "depositChecks E s caller toAddr (Some (MinDepositVal - 1)) op =
           Inl ErrTooLowDepositValue"
  using assms
  by (simp_all add: depositChecks_def MinDepositVal_def BigGwei_def BnCanCastToUint64_def
                    GetBalance_def)

subsection \<open>Errors and the snapshot\<close>

text \<open>
  C1 (as amended).  When \<open>Processor.Call\<close> returns an error, the state it leaves is
  the state before the call, but for the nonce of the caller, which was incremented
  before the snapshot was taken and stays incremented; when the data of the message do
  not decode, the state is untouched.  Balances, validator records, the deposit
  counter, the list of validators and the logs are those before the call.
\<close>

theorem Call_error_state:
  assumes "Call E s caller toAddr val msg = (s', Failed e)"
  shows "s' = (case DecodeBytes (operation E) (msg_Data msg) of
                 Inl d \<Rightarrow> s
               | Inr op \<Rightarrow> s\<lparr>Nonce := (Nonce s)(caller := Nonce s caller + 1)\<rparr>)"
proof (cases "DecodeBytes (operation E) (msg_Data msg)")
  case (Inl d)
  with assms show ?thesis by (simp add: Call_def)
next
  case (Inr op)
  with assms show ?thesis
    by (simp add: Call_def Let_def Snapshot_def RevertToSnapshot_def SetNonce_def GetNonce_def
             split: outcome.splits)
qed

text \<open>
  An instance is an activation whose log cannot be encoded: \<open>validatorActivate\<close> has
  stored the record and extended the list of validators when it fails, and \<open>Call\<close>
  gives back the state of the snapshot.
\<close>

lemma activate_pack_fails:
  "validatorActivate envPackFails (stateA\<lparr>Nonce := (Nonce stateA)(0xF1 := Nonce stateA 0xF1 + 1)\<rparr>) actA
     = (s1, r) \<Longrightarrow> r = Failed ErrRlp \<and> ValidatorsList s1 = [(3, 0xC1)]"
  by (auto simp: validatorActivate_def envPackFails_def env0_def cfg0_def chain0_def txlog0_def
        stateA_def state0_def valA_def actA_def GetValidator_def SetValidator_def
        NewValidator_def MaxUint64_def updateValidatorVersionBySlot_def ResetDepositTxs_def
        UnsetStake_def AddValidatorToList_def Let_def)

lemma validate_actA:
  "ValidateValidatorSyncOp envPackFails actA 250 0x78 = None"
  by (simp add: ValidateValidatorSyncOp_def envPackFails_def env0_def cfg0_def chain0_def
        actA_def savedA_def CompareValSync_def initBySlashing_def Let_def)

theorem Call_error_state_witness:
  "Call envPackFails stateA 0xF1 0x1000 None msgActivate =
     (stateA\<lparr>Nonce := (Nonce stateA)(0xF1 := Nonce stateA 0xF1 + 1)\<rparr>, Failed ErrRlp)
   \<and> ValidatorsList (fst (validatorActivate envPackFails
        (stateA\<lparr>Nonce := (Nonce stateA)(0xF1 := Nonce stateA 0xF1 + 1)\<rparr>) actA)) = [(3, 0xC1)]
   \<and> ValidatorsList stateA = []"
proof -
  let ?s0 = "stateA\<lparr>Nonce := (Nonce stateA)(0xF1 := Nonce stateA 0xF1 + 1)\<rparr>"
  obtain s1 r where act: "validatorActivate envPackFails ?s0 actA = (s1, r)"
    by (cases "validatorActivate envPackFails ?s0 actA")
  from activate_pack_fails [OF act] have r: "r = Failed ErrRlp"
    and l: "ValidatorsList s1 = [(3, 0xC1)]" by simp_all
  have dec: "DecodeBytes (operation envPackFails) (msg_Data msgActivate)
               = Inr (ValidatorSync actA)"
    by (simp add: envPackFails_def env0_def ops0_def decode0_def msgActivate_def)
  have sync: "syncOpProcessing envPackFails ?s0 actA msgActivate = (s1, Failed ErrRlp)"
    using validate_actA act r
    by (simp add: syncOpProcessing_def syncOpCode_def actA_def msgActivate_def
          envPackFails_def env0_def)
  obtain s' where call: "Call envPackFails stateA 0xF1 0x1000 None msgActivate
                           = (s', Failed ErrRlp)"
    using dec sync
    by (simp add: Call_def Let_def SetNonce_def GetNonce_def Snapshot_def)
  from Call_error_state [OF call] dec have "s' = ?s0" by simp
  with call act l show ?thesis by (simp add: stateA_def state0_def)
qed

text \<open>
  C1 as it is stated fails: a deposit below the minimum returns the error, and the
  nonce of the caller is 1 afterwards and was 0 before.
\<close>

theorem Call_error_nonce_counterexample:
  "snd (Call (env0 250) state0 0xF1 0x1000 (Some (MinDepositVal - 1)) msgDeposit)
     = Failed ErrTooLowDepositValue
   \<and> Nonce (fst (Call (env0 250) state0 0xF1 0x1000 (Some (MinDepositVal - 1)) msgDeposit)) 0xF1 = 1
   \<and> Nonce state0 0xF1 = 0
   \<and> fst (Call (env0 250) state0 0xF1 0x1000 (Some (MinDepositVal - 1)) msgDeposit) \<noteq> state0"
proof -
  let ?c = "Call (env0 250) state0 0xF1 0x1000 (Some (MinDepositVal - 1)) msgDeposit"
  have c: "snd ?c = Failed ErrTooLowDepositValue \<and> Nonce (fst ?c) 0xF1 = 1"
    by (simp add: Call_def env0_def ops0_def decode0_def msgDeposit_def validatorDeposit_def
          depositChecks_def IsValidatorOp_def GetValidatorsStateAddress_def cfg0_def depA_def
          MinDepositVal_def Let_def SetNonce_def GetNonce_def state0_def Snapshot_def
          RevertToSnapshot_def)
  have n: "Nonce state0 0xF1 = 0" by (simp add: state0_def)
  from c n have "fst ?c \<noteq> state0" by auto
  with c n show ?thesis by simp
qed

section \<open>Validation of delegating stake rules\<close>

text \<open>
  C8.  \<open>Validate\<close> succeeds if and only if the profit shares sum to exactly 100, the
  stake shares sum to exactly 100 and both the exit and the withdrawal address lists
  are non-empty; a rule that is the only one violated yields its own named error
  (\<open>ErrBadProfitShare\<close>, \<open>ErrBadStakeShare\<close>, \<open>ErrNoExitRoles\<close>,
  \<open>ErrNoWithdrawalRoles\<close>).
\<close>

theorem Validate_iff:
  "(Validate r = None) =
     (shareSum (ProfitShare r) = 100 \<and> shareSum (StakeShare r) = 100
      \<and> ExitRoles r \<noteq> [] \<and> WithdrawalRoles r \<noteq> [])
   \<and> (shareSum (ProfitShare r) \<noteq> 100 \<and> shareSum (StakeShare r) = 100
      \<and> ExitRoles r \<noteq> [] \<and> WithdrawalRoles r \<noteq> []
      \<longrightarrow> Validate r = Some ErrBadProfitShare)
   \<and> (shareSum (ProfitShare r) = 100 \<and> shareSum (StakeShare r) \<noteq> 100
      \<and> ExitRoles r \<noteq> [] \<and> WithdrawalRoles r \<noteq> []
      \<longrightarrow> Validate r = Some ErrBadStakeShare)
   \<and> (shareSum (ProfitShare r) = 100 \<and> shareSum (StakeShare r) = 100
      \<and> ExitRoles r = [] \<and> WithdrawalRoles r \<noteq> []
      \<longrightarrow> Validate r = Some ErrNoExitRoles)
   \<and> (shareSum (ProfitShare r) = 100 \<and> shareSum (StakeShare r) = 100
      \<and> ExitRoles r \<noteq> [] \<and> WithdrawalRoles r = []
      \<longrightarrow> Validate r = Some ErrNoWithdrawalRoles)"
  by (simp add: Validate_def)

theorem Validate_iff_witness:
  "Validate testRules = None
   \<and> Validate (testRules\<lparr>ProfitShare := []\<rparr>) = Some ErrBadProfitShare
   \<and> Validate (testRules\<lparr>StakeShare :=
        [(0x1111111111111111111111111111111111111111, 60),
         (0x2222222222222222222222222222222222222222, 60)]\<rparr>) = Some ErrBadStakeShare
   \<and> Validate (testRules\<lparr>ExitRoles := []\<rparr>) = Some ErrNoExitRoles
   \<and> Validate (testRules\<lparr>WithdrawalRoles := []\<rparr>) = Some ErrNoWithdrawalRoles"
  using Validate_iff [of testRules]
    Validate_iff [of "testRules\<lparr>ProfitShare := []\<rparr>"]
    Validate_iff [of "testRules\<lparr>StakeShare :=
        [(0x1111111111111111111111111111111111111111, 60),
         (0x2222222222222222222222222222222222222222, 60)]\<rparr>"]
    Validate_iff [of "testRules\<lparr>ExitRoles := []\<rparr>"]
    Validate_iff [of "testRules\<lparr>WithdrawalRoles := []\<rparr>"]
  by (simp add: testRules_def shareSum_def)

section \<open>Deposits\<close>

text \<open>
  C7.  A deposit of exactly the minimum value, 10 * 10^18 base units, for a creator
  without a record, with a valid signature and a sender that holds the value, succeeds
  through \<open>Call\<close>: the record of the creator is created with the stake of the sender
  and the deposit transaction, the deposit counter is incremented by exactly 1 and the
  balance of the sender is debited by exactly the value.  A deposit of one unit less
  fails with \<open>ErrTooLowDepositValue\<close> and leaves every balance as it was.  The
  deposit is addressed to the validators state, and its delegating stake data, if any,
  are accepted (\<open>depositNewValidator\<close> returns the new record).
\<close>

theorem deposit_minimum_value:
  assumes to: "IsValidatorOp E toAddr"
    and sig: "VerifyDepositSig (operation E) (dep_Signature op) (dep_PubKey op)
                (dep_CreatorAddress op) (dep_WithdrawalAddress op) = None"
    and new: "depositNewValidator E op = Inr v0"
    and fresh: "Validators s (dep_CreatorAddress op) = None"
    and bal: "MinDepositVal \<le> Balance s caller"
    and dec: "DecodeBytes (operation E) (msg_Data msg) = Inr (Deposit op)"
  shows "MinDepositVal = 10 * 10 ^ 18
    \<and> (\<exists>s' v. Call E s caller toAddr (Some MinDepositVal) msg
                  = (s', Returned (RetValue MinDepositVal))
         \<and> Validators s' (dep_CreatorAddress op) = Some v
         \<and> PubKey v = dep_PubKey op \<and> CreatorAddress v = dep_CreatorAddress op
         \<and> WithdrawalAddress v = Some (dep_WithdrawalAddress op)
         \<and> ActivationEra v = MaxUint64
         \<and> StakeLedger v = [(caller, MinDepositVal)] \<and> DepositTxs v = [msg_TxHash msg]
         \<and> DepositCount s' = DepositCount s + 1
         \<and> Balance s' caller = Balance s caller - MinDepositVal)
    \<and> validatorDeposit E s caller toAddr (Some (MinDepositVal - 1)) op (msg_TxHash msg)
         = (s, Failed ErrTooLowDepositValue)
    \<and> (\<exists>s'. Call E s caller toAddr (Some (MinDepositVal - 1)) msg
                = (s', Failed ErrTooLowDepositValue)
         \<and> Balance s' = Balance s)"
proof -
  let ?s0 = "SetNonce caller (GetNonce s caller + 1) s"
  let ?tx = "msg_TxHash msg"
  note f = depositNewValidator_fields [OF new]
  have s0: "Balance ?s0 = Balance s" "Validators ?s0 = Validators s"
    "DepositCount ?s0 = DepositCount s"
    by (simp_all add: SetNonce_def)
  have chk: "depositChecks E ?s0 caller toAddr (Some MinDepositVal) op = Inr MinDepositVal"
    using deposit_checks_min(1) [OF to sig, of ?s0 caller] bal s0 by simp
  have cur: "depositCurrValidator E ?s0 op v0 = Returned v0"
    by (simp add: depositCurrValidator_def GetValidator_def fresh s0)
  have nb: "\<not> opBlocked E v0 (PendingWithdrawalTx v0)"
    by (simp add: opBlocked_def f)
  have vd: "validatorDeposit E ?s0 caller toAddr (Some MinDepositVal) op ?tx
              = depositApply E ?s0 caller toAddr MinDepositVal op ?tx v0"
    by (simp add: validatorDeposit_def chk new cur nb)
  define v where "v = AddStake caller MinDepositVal
                        (AddDepositTxs ?tx (updateValidatorVersionBySlot E v0))"
  have vf: "PubKey v = dep_PubKey op" "CreatorAddress v = dep_CreatorAddress op"
    "WithdrawalAddress v = Some (dep_WithdrawalAddress op)" "ActivationEra v = MaxUint64"
    "StakeLedger v = [(caller, MinDepositVal)]" "DepositTxs v = [?tx]"
    by (simp_all add: v_def AddStake_def AddDepositTxs_def updateValidatorVersionBySlot_def
          StakeByAddress_def f)
  define s' where "s' = fst (depositApply E ?s0 caller toAddr MinDepositVal op ?tx v0)"
  have ap: "depositApply E ?s0 caller toAddr MinDepositVal op ?tx v0
              = (s', Returned (RetValue MinDepositVal))"
    by (simp add: s'_def depositApply_def SetValidator_def Let_def)
  have sf: "Validators s' (dep_CreatorAddress op) = Some v"
    "DepositCount s' = DepositCount s + 1"
    "Balance s' caller = Balance s caller - MinDepositVal"
    by (simp_all add: s'_def depositApply_def SetValidator_def Let_def AddLog_def
          IncrementDepositCount_def SubBalance_def SetNonce_def v_def [symmetric] vf)
  have ok: "Call E s caller toAddr (Some MinDepositVal) msg
              = (s', Returned (RetValue MinDepositVal))"
    by (simp add: Call_def dec Let_def vd ap)
  have low0: "validatorDeposit E ?s0 caller toAddr (Some (MinDepositVal - 1)) op ?tx
                = (?s0, Failed ErrTooLowDepositValue)"
    by (simp add: validatorDeposit_def deposit_checks_min(2) [OF to sig])
  have low: "validatorDeposit E s caller toAddr (Some (MinDepositVal - 1)) op ?tx
                = (s, Failed ErrTooLowDepositValue)"
    by (simp add: validatorDeposit_def deposit_checks_min(2) [OF to sig])
  have lowc: "Call E s caller toAddr (Some (MinDepositVal - 1)) msg
                = (?s0, Failed ErrTooLowDepositValue)"
    by (simp add: Call_def dec Let_def low0 Snapshot_def RevertToSnapshot_def)
  have m: "MinDepositVal = 10 * 10 ^ 18" by (simp add: MinDepositVal_def)
  from m ok sf vf low lowc s0 show ?thesis by blast
qed

theorem deposit_minimum_value_witness:
  "(\<exists>s' v. Call (env0 250) state0 0xF1 0x1000 (Some MinDepositVal) msgDeposit
               = (s', Returned (RetValue MinDepositVal))
       \<and> Validators s' 0xC1 = Some v
       \<and> StakeLedger v = [(0xF1, 10000000000000000000)] \<and> DepositTxs v = [0x77]
       \<and> DepositCount s' = 1
       \<and> Balance s' 0xF1 = 40000000000000000000)
   \<and> (\<exists>s'. Call (env0 250) state0 0xF1 0x1000 (Some 9999999999999999999) msgDeposit
               = (s', Failed ErrTooLowDepositValue)
       \<and> Balance s' 0xF1 = 50000000000000000000)"
proof -
  have to: "IsValidatorOp (env0 250) 0x1000"
    by (simp add: IsValidatorOp_def GetValidatorsStateAddress_def env0_def cfg0_def)
  have sig: "VerifyDepositSig (operation (env0 250)) (dep_Signature depA) (dep_PubKey depA)
               (dep_CreatorAddress depA) (dep_WithdrawalAddress depA) = None"
    by (simp add: env0_def ops0_def depA_def)
  have new: "depositNewValidator (env0 250) depA = Inr (NewValidator 0xAA 0xC1 (Some 0xD1))"
    by (simp add: depositNewValidator_def depA_def)
  have fresh: "Validators state0 (dep_CreatorAddress depA) = None"
    by (simp add: state0_def)
  have bal: "MinDepositVal \<le> Balance state0 0xF1"
    by (simp add: state0_def MinDepositVal_def)
  have dec: "DecodeBytes (operation (env0 250)) (msg_Data msgDeposit) = Inr (Deposit depA)"
    by (simp add: env0_def ops0_def decode0_def msgDeposit_def)
  from deposit_minimum_value [OF to sig new fresh bal dec]
  show ?thesis
    by (auto simp add: MinDepositVal_def depA_def msgDeposit_def state0_def)
qed

text \<open>
  C10.  A deposit for a creator whose record is activated (its \<open>ActivationEra\<close> is
  below the greatest \<open>uint64\<close>) is rejected: the check of the existing record fails
  with the "already activated" error before the public key, the withdrawal address and
  the delegating stake data are compared, so also when they all match.  The deposit
  never succeeds and leaves the state as it was; the error is the "already activated"
  one whenever the deposit reaches the check of the existing record.
\<close>

theorem deposit_activated_rejected:
  assumes "Validators s (dep_CreatorAddress op) = Some cv"
    and "ActivationEra cv < MaxUint64"
  shows "depositCurrValidator E s op v0 = Failed ErrDepositAlreadyActivated
     \<and> (\<exists>e. validatorDeposit E s caller toAddr val op txHash = (s, Failed e))
     \<and> (depositChecks E s caller toAddr val op = Inr v \<and> depositNewValidator E op = Inr v0
          \<longrightarrow> validatorDeposit E s caller toAddr val op txHash
                = (s, Failed ErrDepositAlreadyActivated))"
proof -
  have cur: "depositCurrValidator E s op w = Failed ErrDepositAlreadyActivated" for w
    using assms by (simp add: depositCurrValidator_def GetValidator_def)
  have "\<exists>e. validatorDeposit E s caller toAddr val op txHash = (s, Failed e)"
    by (simp add: validatorDeposit_def cur split: sum.splits)
  moreover have "depositChecks E s caller toAddr val op = Inr v
      \<and> depositNewValidator E op = Inr v0
      \<longrightarrow> validatorDeposit E s caller toAddr val op txHash
            = (s, Failed ErrDepositAlreadyActivated)"
    by (simp add: validatorDeposit_def cur)
  ultimately show ?thesis using cur by blast
qed

theorem deposit_activated_rejected_witness:
  "validatorDeposit (env0 250) stateActivated 0xF1 0x1000 (Some MinDepositVal) depA 0x79
     = (stateActivated, Failed ErrDepositAlreadyActivated)
   \<and> (\<exists>cv. Validators stateActivated 0xC1 = Some cv \<and> ActivationEra cv = 7
          \<and> PubKey cv = dep_PubKey depA
          \<and> WithdrawalAddress cv = Some (dep_WithdrawalAddress depA)
          \<and> DelegatingStake cv = dep_DelegatingStake depA)"
proof -
  let ?cv = "valA \<lparr>ActivationEra := 7, Index := 3, StakeLedger := [], DepositTxs := []\<rparr>"
  have st: "Validators stateActivated (dep_CreatorAddress depA) = Some ?cv"
    by (simp add: stateActivated_def depA_def)
  have act: "ActivationEra ?cv < MaxUint64"
    by (simp add: MaxUint64_def)
  have chk: "depositChecks (env0 250) stateActivated 0xF1 0x1000 (Some MinDepositVal) depA
               = Inr MinDepositVal"
    by (simp add: depositChecks_def IsValidatorOp_def GetValidatorsStateAddress_def env0_def
          cfg0_def ops0_def depA_def MinDepositVal_def BigGwei_def BnCanCastToUint64_def
          GetBalance_def stateActivated_def state0_def)
  have new: "depositNewValidator (env0 250) depA = Inr (NewValidator 0xAA 0xC1 (Some 0xD1))"
    by (simp add: depositNewValidator_def depA_def)
  from deposit_activated_rejected [OF st act, where E = "env0 250"
      and ?v0.0 = "NewValidator 0xAA 0xC1 (Some 0xD1)" and caller = "0xF1" and toAddr = "0x1000"
      and val = "Some MinDepositVal" and txHash = "0x79" and v = MinDepositVal] chk new
  have "validatorDeposit (env0 250) stateActivated 0xF1 0x1000 (Some MinDepositVal) depA 0x79
          = (stateActivated, Failed ErrDepositAlreadyActivated)"
    by simp
  then show ?thesis
    by (simp add: stateActivated_def depA_def valA_def NewValidator_def)
qed

section \<open>One operation in flight\<close>

lemma opBlocked_spec:
  assumes "SchemaVersion v = Ver1"
  shows "opBlocked E v (Some h) =
           (pendingInSameBlock E h \<or> (receiptSuccessful E h \<and> withinExpirationWindow E h))"
  using assms
  by (cases "GetTransactionReceipt (blockchain E) h")
     (auto simp: opBlocked_def prevOpNotExpired_def pendingInSameBlock_def
        receiptSuccessful_def withinExpirationWindow_def split: option.splits)

lemma window_plain:
  assumes "windowFits E h"
  shows "withinExpirationWindow E h =
           (case GetHeaderByHash (blockchain E) (snd (GetTransactionReceipt (blockchain E) h)) of
              None \<Rightarrow> False
            | Some header \<Rightarrow>
                unat (ctx_Slot (ctx E))
                  < unat (hdr_Slot header) + unat (ValidatorOpExpireSlots (Config E)))"
proof (cases "GetHeaderByHash (blockchain E) (snd (GetTransactionReceipt (blockchain E) h))")
  case None
  then show ?thesis by (simp add: withinExpirationWindow_def)
next
  case (Some header)
  with assms
  have "unat (hdr_Slot header) + unat (ValidatorOpExpireSlots (Config E)) < 2 ^ LENGTH(64)"
    by (simp add: windowFits_def)
  then have "unat (hdr_Slot header + ValidatorOpExpireSlots (Config E))
               = unat (hdr_Slot header) + unat (ValidatorOpExpireSlots (Config E))"
    by (simp only: unat_add_lem [THEN iffD1])
  with Some show ?thesis
    by (simp add: withinExpirationWindow_def word_less_nat_alt)
qed

text \<open>
  C2 (as amended).  A validator record of version \<open>Ver1\<close> has a pending withdrawal
  (exit) transaction.  A further withdrawal (exit) request that passes the checks before
  the version gate is rejected with \<open>ErrValOpBlocked\<close> when the pending transaction is
  in the block being processed, whatever its receipt, or when its receipt is successful,
  the header of its block is known and the current slot is below the slot of that block
  plus the expiration window, a sum of \<open>uint64\<close> that wraps around.  In every other
  case, so when the window has elapsed or the pending transaction failed in another
  block, the request is not blocked and goes on as a request for a record without a
  pending transaction does (\<open>withdrawalApply\<close>, \<open>exitApply\<close>).  When the sum does
  not wrap around, the comparison is the one of the numbers.
\<close>

theorem pending_op_blocks:
  "(IsValidatorOp E toAddr \<and> BnCanCastToUint64 (wd_Amount op div BigGwei)
      \<and> Validators s (wd_CreatorAddress op) = Some v
      \<and> SchemaVersion v = Ver1 \<and> PendingWithdrawalTx v = Some h
     \<longrightarrow> validatorWithdrawal E s caller toAddr op txHash
           = (if pendingInSameBlock E h
                 \<or> (receiptSuccessful E h \<and> withinExpirationWindow E h)
              then (s, Failed ErrValOpBlocked)
              else withdrawalApply E s caller toAddr op txHash v))
   \<and> (exitChecks E s caller toAddr xop = Returned (xv, ep)
      \<and> SchemaVersion xv = Ver1 \<and> PendingExitTx xv = Some xh
     \<longrightarrow> validatorExit E s caller toAddr xop txHash
           = (if pendingInSameBlock E xh
                 \<or> (receiptSuccessful E xh \<and> withinExpirationWindow E xh)
              then (s, Failed ErrValOpBlocked)
              else exitApply E s toAddr xop txHash xv ep))
   \<and> (windowFits E h
     \<longrightarrow> withinExpirationWindow E h
           = (case GetHeaderByHash (blockchain E)
                     (snd (GetTransactionReceipt (blockchain E) h)) of
                None \<Rightarrow> False
              | Some header \<Rightarrow>
                  unat (ctx_Slot (ctx E))
                    < unat (hdr_Slot header) + unat (ValidatorOpExpireSlots (Config E))))"
proof (intro conjI impI)
  assume a: "IsValidatorOp E toAddr \<and> BnCanCastToUint64 (wd_Amount op div BigGwei)
      \<and> Validators s (wd_CreatorAddress op) = Some v
      \<and> SchemaVersion v = Ver1 \<and> PendingWithdrawalTx v = Some h"
  then have "opBlocked E v (PendingWithdrawalTx v)
               = (pendingInSameBlock E h
                  \<or> (receiptSuccessful E h \<and> withinExpirationWindow E h))"
    using opBlocked_spec [of v E h] by simp
  with a show "validatorWithdrawal E s caller toAddr op txHash
           = (if pendingInSameBlock E h
                 \<or> (receiptSuccessful E h \<and> withinExpirationWindow E h)
              then (s, Failed ErrValOpBlocked)
              else withdrawalApply E s caller toAddr op txHash v)"
    by (simp add: validatorWithdrawal_def GetValidator_def)
next
  assume a: "exitChecks E s caller toAddr xop = Returned (xv, ep)
      \<and> SchemaVersion xv = Ver1 \<and> PendingExitTx xv = Some xh"
  then have "opBlocked E xv (PendingExitTx xv)
               = (pendingInSameBlock E xh
                  \<or> (receiptSuccessful E xh \<and> withinExpirationWindow E xh))"
    using opBlocked_spec [of xv E xh] by simp
  with a show "validatorExit E s caller toAddr xop txHash
           = (if pendingInSameBlock E xh
                 \<or> (receiptSuccessful E xh \<and> withinExpirationWindow E xh)
              then (s, Failed ErrValOpBlocked)
              else exitApply E s toAddr xop txHash xv ep)"
    by (simp add: validatorExit_def)
next
  assume "windowFits E h"
  then show "withinExpirationWindow E h
           = (case GetHeaderByHash (blockchain E)
                     (snd (GetTransactionReceipt (blockchain E) h)) of
                None \<Rightarrow> False
              | Some header \<Rightarrow>
                  unat (ctx_Slot (ctx E))
                    < unat (hdr_Slot header) + unat (ValidatorOpExpireSlots (Config E)))"
    by (rule window_plain)
qed

lemmas fixture_defs =
  env0_def envP_def cfg0_def chain0_def chainP_def ops0_def txlog0_def state0_def
  stateP_def valP_def wdP_def exP_def NewValidator_def MaxUint64_def

lemma fixtureP_withdrawal:
  "IsValidatorOp (envP slot) 0x1000 \<and> BnCanCastToUint64 (wd_Amount wdP div BigGwei)
   \<and> Validators (stateP h) (wd_CreatorAddress wdP) = Some (valP h)
   \<and> SchemaVersion (valP h) = Ver1 \<and> PendingWithdrawalTx (valP h) = Some h"
  by (simp add: IsValidatorOp_def GetValidatorsStateAddress_def BnCanCastToUint64_def
        BigGwei_def fixture_defs)

lemma fixtureP_exit:
  "exitChecks (envP slot) (stateP h) 0xD1 0x1000 exP = Returned (valP h, Some 40)
   \<and> SchemaVersion (valP h) = Ver1 \<and> PendingExitTx (valP h) = Some h"
  by (simp add: exitChecks_def senderAllowed_def HasDelegatingStake_def GetValidator_def
        IsValidatorOp_def GetValidatorsStateAddress_def fixture_defs)

lemma fixtureP_window:
  "pendingInSameBlock (envP slot) 0x55 = False"
  "receiptSuccessful (envP slot) 0x55 = True"
  "withinExpirationWindow (envP 250) 0x55 = True"
  "withinExpirationWindow (envP 280) 0x55 = False"
  "pendingInSameBlock (envP slot) 0x56 = True"
  "receiptSuccessful (envP slot) 0x56 = False"
  "pendingInSameBlock (envP slot) 0x57 = False"
  "receiptSuccessful (envP slot) 0x57 = False"
  "windowFits (envP slot) 0x55 = True"
  by (simp_all add: pendingInSameBlock_def receiptSuccessful_def withinExpirationWindow_def
        windowFits_def ReceiptStatusSuccessful_def fixture_defs)

lemma fixtureP_apply:
  "snd (withdrawalApply (envP slot) (stateP h) 0xD1 0x1000 wdP 0x99 (valP h))
     = Returned (RetAddress 0xC1)"
  "snd (exitApply (envP slot) (stateP h) 0x1000 exP 0x99 (valP h) (Some 40))
     = Returned (RetAddress 0xC1)"
  by (simp_all add: withdrawalApply_def withdrawalBranch_def senderAllowed_def
        HasDelegatingStake_def updateValidatorVersionBySlot_def SetValidator_def
        exitApply_def Let_def fixture_defs)

theorem pending_op_blocks_witness:
  "validatorWithdrawal (envP 250) (stateP 0x55) 0xD1 0x1000 wdP 0x99
     = (stateP 0x55, Failed ErrValOpBlocked)
   \<and> snd (validatorWithdrawal (envP 280) (stateP 0x55) 0xD1 0x1000 wdP 0x99)
     = Returned (RetAddress 0xC1)
   \<and> validatorWithdrawal (envP 250) (stateP 0x56) 0xD1 0x1000 wdP 0x99
     = (stateP 0x56, Failed ErrValOpBlocked)
   \<and> snd (validatorWithdrawal (envP 250) (stateP 0x57) 0xD1 0x1000 wdP 0x99)
     = Returned (RetAddress 0xC1)
   \<and> validatorExit (envP 250) (stateP 0x55) 0xD1 0x1000 exP 0x99
     = (stateP 0x55, Failed ErrValOpBlocked)
   \<and> snd (validatorExit (envP 280) (stateP 0x55) 0xD1 0x1000 exP 0x99)
     = Returned (RetAddress 0xC1)
   \<and> validatorExit (envP 250) (stateP 0x56) 0xD1 0x1000 exP 0x99
     = (stateP 0x56, Failed ErrValOpBlocked)
   \<and> snd (validatorExit (envP 250) (stateP 0x57) 0xD1 0x1000 exP 0x99)
     = Returned (RetAddress 0xC1)
   \<and> windowFits (envP 250) 0x55
   \<and> withinExpirationWindow (envP 250) 0x55 = ((250::nat) < 230 + 50)"
proof -
  note w = pending_op_blocks [THEN conjunct1, rule_format, OF fixtureP_withdrawal,
      where caller = "0xD1" and txHash = "0x99"]
  note x = pending_op_blocks [THEN conjunct2, THEN conjunct1, rule_format, OF fixtureP_exit,
      where txHash = "0x99"]
  have f: "windowFits (envP 250) 0x55" by (simp add: fixtureP_window)
  have p: "withinExpirationWindow (envP 250) 0x55 = ((250::nat) < 230 + 50)"
    using pending_op_blocks [where E = "envP 250" and h = "0x55",
        THEN conjunct2, THEN conjunct2, rule_format, OF f]
    by (simp add: fixture_defs)
  show ?thesis
    using p by (simp add: w x fixtureP_window fixtureP_apply)
qed

text \<open>
  C2 as it is stated fails in two places.  The pending transaction \<open>0x56\<close> failed, and
  it is in the block being processed: the withdrawal and the exit request are blocked,
  although the prior transaction failed.  And with an expiration window of
  \<open>2^64 - 1\<close> slots the successful pending transaction \<open>0x55\<close> of slot 230 does not
  block a request at slot 250, which is within the window: the sum
  \<open>230 + (2^64 - 1)\<close> wraps around to 229.
\<close>

theorem pending_op_blocks_counterexample:
  "\<not> receiptSuccessful (envP 250) 0x56
   \<and> validatorWithdrawal (envP 250) (stateP 0x56) 0xD1 0x1000 wdP 0x99
       = (stateP 0x56, Failed ErrValOpBlocked)
   \<and> validatorExit (envP 250) (stateP 0x56) 0xD1 0x1000 exP 0x99
       = (stateP 0x56, Failed ErrValOpBlocked)
   \<and> receiptSuccessful envW 0x55
   \<and> map_option hdr_Slot
        (GetHeaderByHash (blockchain envW) (snd (GetTransactionReceipt (blockchain envW) 0x55)))
       = Some 230
   \<and> ctx_Slot (ctx envW) = 250
   \<and> (250::nat) < 230 + unat (ValidatorOpExpireSlots (Config envW))
   \<and> (230::uint64) + ValidatorOpExpireSlots (Config envW) = 229
   \<and> snd (validatorWithdrawal envW (stateP 0x55) 0xD1 0x1000 wdP 0x99)
       = Returned (RetAddress 0xC1)
   \<and> snd (validatorExit envW (stateP 0x55) 0xD1 0x1000 exP 0x99)
       = Returned (RetAddress 0xC1)"
  by (simp add: validatorWithdrawal_def withdrawalApply_def withdrawalBranch_def
        validatorExit_def exitChecks_def exitApply_def senderAllowed_def
        HasDelegatingStake_def opBlocked_def prevOpNotExpired_def receiptSuccessful_def
        updateValidatorVersionBySlot_def GetValidator_def SetValidator_def AddLog_def
        IsValidatorOp_def GetValidatorsStateAddress_def BnCanCastToUint64_def BigGwei_def
        ReceiptStatusSuccessful_def Let_def envW_def fixture_defs)

section \<open>Validation of a sync operation against the saved record\<close>

lemma CompareValSync_spec:
  "CompareValSync saved input isForkDelegate = matchesSaved saved input isForkDelegate"
  by (cases "sv_Amount saved"; cases "vs_Amount input")
     (auto simp: CompareValSync_def matchesSaved_def)

text \<open>
  C3 (as amended).  \<open>ValidateValidatorSyncOp\<close> fails with \<open>ErrNoSavedValSyncOp\<close>
  when no sync record is saved for the \<open>InitTxHash\<close> of the operation.  With a saved
  record: before the delegate fork an operation whose \<open>ProcEpoch\<close> is earlier than
  the epoch of the slot of application fails with \<open>ErrInvalidOpEpoch\<close>, before
  anything is compared; otherwise the operation fails with \<open>ErrMismatchValSyncOp\<close>
  unless it matches the saved record; a matching operation whose saved record carries
  another transaction hash fails with \<open>ErrValSyncTxExists\<close>, unless the delegate fork
  is active and the receipt of that transaction is not successful: then the validation
  goes on with the initial transaction.
\<close>

theorem ValidateValidatorSyncOp_checks:
  "(GetValidatorSyncData (blockchain E) (vs_InitTxHash op) = None
      \<longrightarrow> ValidateValidatorSyncOp E op slot txHash = Some ErrNoSavedValSyncOp)
   \<and> (GetValidatorSyncData (blockchain E) (vs_InitTxHash op) = Some saved
      \<and> \<not> IsForkSlotDelegate (Config E) slot
      \<and> SlotToEpoch (blockchain E) slot > vs_ProcEpoch op
      \<longrightarrow> ValidateValidatorSyncOp E op slot txHash = Some ErrInvalidOpEpoch)
   \<and> (GetValidatorSyncData (blockchain E) (vs_InitTxHash op) = Some saved
      \<and> (IsForkSlotDelegate (Config E) slot
          \<or> SlotToEpoch (blockchain E) slot \<le> vs_ProcEpoch op)
      \<and> \<not> matchesSaved saved op (IsForkSlotDelegate (Config E) slot)
      \<longrightarrow> ValidateValidatorSyncOp E op slot txHash = Some ErrMismatchValSyncOp)
   \<and> (GetValidatorSyncData (blockchain E) (vs_InitTxHash op) = Some saved
      \<and> (IsForkSlotDelegate (Config E) slot
          \<or> SlotToEpoch (blockchain E) slot \<le> vs_ProcEpoch op)
      \<and> matchesSaved saved op (IsForkSlotDelegate (Config E) slot)
      \<and> sv_TxHash saved = Some h \<and> h \<noteq> txHash
      \<longrightarrow> ValidateValidatorSyncOp E op slot txHash
            = (if IsForkSlotDelegate (Config E) slot \<and> \<not> receiptSuccessful E h
               then (if initBySlashing op then None else checkInitTx E op)
               else Some ErrValSyncTxExists))"
  by (auto simp: ValidateValidatorSyncOp_def CompareValSync_spec Let_def)

lemma fixtureS:
  "GetValidatorSyncData (blockchain (envS slot)) (vs_InitTxHash (actS 0)) = Some (savedS 0 None)"
  "GetValidatorSyncData (blockchain (envS slot)) (vs_InitTxHash (actS 1))
     = Some (savedS 1 (Some 0x55))"
  "GetValidatorSyncData (blockchain (envS slot)) (vs_InitTxHash (actS 2))
     = Some (savedS 2 (Some 0x57))"
  "GetValidatorSyncData (blockchain (envS slot)) (vs_InitTxHash (actS 9)) = None"
  "IsForkSlotDelegate (Config (envS slot)) 250 = True"
  "IsForkSlotDelegate (Config (envS slot)) 80 = False"
  "SlotToEpoch (blockchain (envS slot)) 80 = 10"
  "matchesSaved (savedS n h) (actS n) f = True"
  "matchesSaved (savedS n h) ((actS n)\<lparr>vs_Index := 4\<rparr>) f = False"
  "vs_InitTxHash ((actS n)\<lparr>vs_Index := 4\<rparr>) = vs_InitTxHash (actS n)"
  "vs_InitTxHash ((actS n)\<lparr>vs_ProcEpoch := 5\<rparr>) = vs_InitTxHash (actS n)"
  "vs_ProcEpoch ((actS n)\<lparr>vs_ProcEpoch := 5\<rparr>) = 5"
  "vs_ProcEpoch (actS n) = 20"
  "sv_TxHash (savedS n h) = h"
  "receiptSuccessful (envS slot) 0x55 = True"
  "receiptSuccessful (envS slot) 0x57 = False"
  "initBySlashing (actS 2) = True"
  by (simp_all add: envS_def chainS_def keyS_def savedS_def actS_def savedA_def actA_def
        matchesSaved_def receiptSuccessful_def initBySlashing_def ReceiptStatusSuccessful_def
        fixture_defs)

theorem ValidateValidatorSyncOp_checks_witness:
  "ValidateValidatorSyncOp (envS 250) (actS 9) 250 0x78 = Some ErrNoSavedValSyncOp
   \<and> ValidateValidatorSyncOp (envS 80) ((actS 0)\<lparr>vs_ProcEpoch := 5\<rparr>) 80 0x78
       = Some ErrInvalidOpEpoch
   \<and> ValidateValidatorSyncOp (envS 250) ((actS 0)\<lparr>vs_Index := 4\<rparr>) 250 0x78
       = Some ErrMismatchValSyncOp
   \<and> ValidateValidatorSyncOp (envS 250) (actS 1) 250 0x78 = Some ErrValSyncTxExists
   \<and> ValidateValidatorSyncOp (envS 80) (actS 2) 80 0x78 = Some ErrValSyncTxExists
   \<and> ValidateValidatorSyncOp (envS 250) (actS 2) 250 0x78 = None"
proof -
  note t = ValidateValidatorSyncOp_checks
  have 1: "ValidateValidatorSyncOp (envS 250) (actS 9) 250 0x78 = Some ErrNoSavedValSyncOp"
    using t [where E = "envS 250" and op = "actS 9" and slot = 250 and txHash = "0x78",
        THEN conjunct1]
    by (simp add: fixtureS)
  have 2: "ValidateValidatorSyncOp (envS 80) ((actS 0)\<lparr>vs_ProcEpoch := 5\<rparr>) 80 0x78
             = Some ErrInvalidOpEpoch"
    using t [where E = "envS 80"
        and op = "(actS 0)\<lparr>vs_ProcEpoch := 5\<rparr>" and slot = 80
        and saved = "savedS 0 None" and txHash = "0x78", THEN conjunct2, THEN conjunct1]
    by (simp add: fixtureS)
  have 3: "ValidateValidatorSyncOp (envS 250) ((actS 0)\<lparr>vs_Index := 4\<rparr>) 250 0x78
             = Some ErrMismatchValSyncOp"
    using t [where E = "envS 250"
        and op = "(actS 0)\<lparr>vs_Index := 4\<rparr>" and slot = 250
        and saved = "savedS 0 None" and txHash = "0x78",
        THEN conjunct2, THEN conjunct2, THEN conjunct1]
    by (simp add: fixtureS)
  have 4: "ValidateValidatorSyncOp (envS 250) (actS 1) 250 0x78 = Some ErrValSyncTxExists"
    using t [where E = "envS 250" and op = "actS 1" and slot = 250
        and saved = "savedS 1 (Some 0x55)" and h = "0x55" and txHash = "0x78",
        THEN conjunct2, THEN conjunct2, THEN conjunct2]
    by (simp add: fixtureS)
  have 5: "ValidateValidatorSyncOp (envS 80) (actS 2) 80 0x78 = Some ErrValSyncTxExists"
    using t [where E = "envS 80" and op = "actS 2" and slot = 80
        and saved = "savedS 2 (Some 0x57)" and h = "0x57" and txHash = "0x78",
        THEN conjunct2, THEN conjunct2, THEN conjunct2]
    by (simp add: fixtureS)
  have 6: "ValidateValidatorSyncOp (envS 250) (actS 2) 250 0x78 = None"
    using t [where E = "envS 250" and op = "actS 2" and slot = 250
        and saved = "savedS 2 (Some 0x57)" and h = "0x57" and txHash = "0x78",
        THEN conjunct2, THEN conjunct2, THEN conjunct2]
    by (simp add: fixtureS)
  from 1 2 3 4 5 6 show ?thesis by simp
qed

text \<open>
  C3 as it is stated fails: before the delegate fork, at slot 80 (epoch 10), an
  operation for epoch 5 that differs from the saved record in its index only does not
  fail with \<open>ErrMismatchValSyncOp\<close> but with \<open>ErrInvalidOpEpoch\<close>.
\<close>

theorem ValidateValidatorSyncOp_epoch_counterexample:
  "GetValidatorSyncData (blockchain (envS 80))
       (vs_InitTxHash ((actS 3)\<lparr>vs_ProcEpoch := 5, vs_Index := 4\<rparr>))
     = Some ((savedS 3 None) \<lparr>sv_ProcEpoch := 5\<rparr>)
   \<and> \<not> matchesSaved ((savedS 3 None) \<lparr>sv_ProcEpoch := 5\<rparr>)
          ((actS 3)\<lparr>vs_ProcEpoch := 5, vs_Index := 4\<rparr>) False
   \<and> matchesSaved ((savedS 3 None) \<lparr>sv_ProcEpoch := 5\<rparr>)
          ((actS 3)\<lparr>vs_ProcEpoch := 5\<rparr>) False
   \<and> ValidateValidatorSyncOp (envS 80) ((actS 3)\<lparr>vs_ProcEpoch := 5, vs_Index := 4\<rparr>) 80 0x78
       = Some ErrInvalidOpEpoch
   \<and> ValidateValidatorSyncOp (envS 80) ((actS 3)\<lparr>vs_ProcEpoch := 5, vs_Index := 4\<rparr>) 80 0x78
       \<noteq> Some ErrMismatchValSyncOp"
  by (simp add: ValidateValidatorSyncOp_def envS_def chainS_def keyS_def savedS_def actS_def
        savedA_def actA_def matchesSaved_def Let_def fixture_defs)

section \<open>Activation\<close>

text \<open>
  C4 (as amended).  After a successful activation of a known validator the stored
  record has its \<open>ActivationEra\<close> set to the number of the era of the \<open>ProcEpoch\<close>
  of the operation plus 2 (an addition of \<open>uint64\<close>), its index set to the index of
  the operation, and its stake ledger and its set of deposit transactions empty.  The
  era is the one \<open>EpochToEra\<close> gives for the operation, not the current era of the
  block context or of the chain.
\<close>

theorem activate_sets_record:
  assumes "validatorActivate E s op = (s', Returned r)"
  shows "\<exists>v opEra v'. Validators s (vs_Creator op) = Some v
           \<and> EpochToEra (blockchain E) (vs_ProcEpoch op) = Some opEra
           \<and> Validators s' (CreatorAddress v) = Some v'
           \<and> ActivationEra v' = era_Number opEra + 2
           \<and> Index v' = vs_Index op
           \<and> StakeLedger v' = [] \<and> DepositTxs v' = []"
  using assms
  by (auto simp: validatorActivate_def GetValidator_def SetValidator_def Let_def
        AddValidatorToList_def AddLog_def updateValidatorVersionBySlot_def
        ResetDepositTxs_def UnsetStake_def postpone_def
        split: option.splits if_splits sum.splits)

lemma activate_fixture:
  "validatorActivate (env0 250) stateA actA =
     (stateA \<lparr> Validators := (Validators stateA)
                  (0xC1 \<mapsto> valA \<lparr> SchemaVersion := Ver1, DepositTxs := [],
                                   ActivationEra := 7, Index := 3, StakeLedger := [] \<rparr>),
               ValidatorsList := [(3, 0xC1)],
               Logs := [ActivateLog 0x1000 [] 0xC1 (push_bit 96 0xC1)] \<rparr>,
      Returned (RetAddress 0xC1))"
  by (simp add: validatorActivate_def GetValidator_def SetValidator_def Let_def
        AddValidatorToList_def AddLog_def updateValidatorVersionBySlot_def
        ResetDepositTxs_def UnsetStake_def postpone_def GetValidatorsStateAddress_def
        stateA_def valA_def actA_def fixture_defs)

theorem activate_sets_record_witness:
  "\<exists>v'. Validators (fst (validatorActivate (env0 250) stateA actA)) 0xC1 = Some v'
         \<and> ActivationEra v' = 7 \<and> Index v' = 3 \<and> StakeLedger v' = [] \<and> DepositTxs v' = []"
  using activate_sets_record [OF activate_fixture]
  by (simp only: activate_fixture fst_conv) (simp add: stateA_def valA_def fixture_defs)

text \<open>
  C4 as it is stated fails: the activation for epoch 20, which is in era 5, is applied
  at slot 250, in era 7, which is the current era of the block context and of the chain;
  the activation era is 7 = 5 + 2, not 9 = 7 + 2.
\<close>

theorem activate_era_counterexample:
  "snd (validatorActivate (env0 250) stateA actA) = Returned (RetAddress 0xC1)
   \<and> map_option ActivationEra (Validators (fst (validatorActivate (env0 250) stateA actA)) 0xC1)
       = Some 7
   \<and> ctx_Era (ctx (env0 250)) + 2 = 9
   \<and> EraInfoNumber (blockchain (env0 250)) + 2 = 9
   \<and> map_option era_Number (EpochToEra (blockchain (env0 250)) (vs_ProcEpoch actA)) = Some 5"
  by (simp only: activate_fixture fst_conv snd_conv) (simp add: actA_def valA_def fixture_defs)

section \<open>Distribution under delegating stake rules\<close>

lemma applyShares_Balance:
  "distinct (map fst shares) \<Longrightarrow>
   Balance (fst (applyShares t tr pc shares (s, info))) x
     = Balance s x + (case map_of shares x of None \<Rightarrow> 0 | Some share \<Rightarrow> pc * uint share)"
proof (induction shares arbitrary: s info)
  case Nil
  show ?case by simp
next
  case (Cons p shares)
  obtain a share where p: "p = (a, share)" by (cases p)
  from Cons.prems p have d: "distinct (map fst shares)" and n: "map_of shares a = None"
    by (auto simp: map_of_eq_None_iff)
  show ?case
    using Cons.IH [OF d] n
    by (simp add: p Let_def AddBalance_def)
qed

lemma applyShares_info:
  "sum_list (map sra_Amount (snd (applyShares t tr pc shares (s, info))))
     = sum_list (map sra_Amount info) + pc * int (shareSum shares)"
proof (induction shares arbitrary: s info)
  case Nil
  show ?case by (simp add: shareSum_def)
next
  case (Cons p shares)
  obtain a share where p: "p = (a, share)" by (cases p)
  have "shareSum (p # shares) = unat share + shareSum shares"
    by (simp add: shareSum_def p)
  then show ?case
    using Cons.IH
    by (simp add: p Let_def algebra_simps)
qed

lemma applyShares_frame:
  "Validators (fst (applyShares t tr pc shares (s, info))) = Validators s
   \<and> Logs (fst (applyShares t tr pc shares (s, info))) = Logs s"
  by (induction shares arbitrary: s info) (auto simp: Let_def AddBalance_def)

lemma distribute_Balance:
  "distinct (map fst shares) \<Longrightarrow>
   Balance (fst (distribute t tr portion shares (s, info))) x
     = Balance s x + credit portion shares x"
  by (simp add: distribute_def credit_def applyShares_Balance)

lemma distribute_info:
  "sum_list (map sra_Amount (snd (distribute t tr portion shares (s, info))))
     = sum_list (map sra_Amount info) + credited portion shares"
  by (simp add: distribute_def credited_def applyShares_info)

lemma distribute_frame:
  "Validators (fst (distribute t tr portion shares (s, info))) = Validators s
   \<and> Logs (fst (distribute t tr portion shares (s, info))) = Logs s"
  by (simp add: distribute_def applyShares_frame)

text \<open>
  C9.  In the distribution of a balance update under delegating stake rules every
  address is credited, for each of the two portions (profit and stake), with the
  hundredth part of the portion by integer division times its share (\<open>credit\<close>); the
  amounts logged add up to the hundredth part of each portion times the sum of its
  shares, so to \<open>(P div 100) * 100\<close> for shares that sum to 100: the remainder of the
  division is dropped.  The keys of a share map are distinct, as the keys of a Go map.
\<close>

theorem delegating_distribution:
  assumes ok: "applyDelegatingStakeRules E s op v = (s', Returned r)"
    and rules: "actualRules E v = Returned (isTrial, rules)"
    and bal: "vs_Balance op = Some b" and amt: "vs_Amount op = Some a"
    and ps: "profitAndStake E b a = (P, S)"
    and dp: "distinct (map fst (ProfitShare rules))"
    and dst: "distinct (map fst (StakeShare rules))"
  shows "Balance s' x = Balance s x + credit P (ProfitShare rules) x
                          + credit S (StakeShare rules) x
    \<and> (\<exists>logData info. last (Logs s')
                          = DelegatingStakeLog (GetValidatorsStateAddress E) logData info
          \<and> sum_list (map sra_Amount info)
              = credited P (ProfitShare rules) + credited S (StakeShare rules))
    \<and> (0 < P \<and> shareSum (ProfitShare rules) = 100
          \<longrightarrow> credited P (ProfitShare rules) = (P div 100) * 100)
    \<and> (0 < S \<and> shareSum (StakeShare rules) = 100
          \<longrightarrow> credited S (StakeShare rules) = (S div 100) * 100)"
proof -
  define d1 where "d1 = distribute RuleProfitShare isTrial P (ProfitShare rules) (s, [])"
  define d2 where "d2 = distribute RuleStakeShare isTrial S (StakeShare rules) d1"
  have b1: "Balance (fst d1) x = Balance s x + credit P (ProfitShare rules) x"
    unfolding d1_def by (rule distribute_Balance [OF dp])
  have b2: "Balance (fst d2) x = Balance (fst d1) x + credit S (StakeShare rules) x"
    using distribute_Balance [OF dst, of RuleStakeShare isTrial S "fst d1" "snd d1" x]
    by (simp add: d2_def)
  have i1: "sum_list (map sra_Amount (snd d1)) = credited P (ProfitShare rules)"
    unfolding d1_def by (simp add: distribute_info)
  have i2: "sum_list (map sra_Amount (snd d2))
              = credited P (ProfitShare rules) + credited S (StakeShare rules)"
    using distribute_info [of RuleStakeShare isTrial S "StakeShare rules" "fst d1" "snd d1"] i1
    by (simp add: d2_def)
  from ok rules bal amt ps
  obtain l1 l2 where s': "s' = AddLog (DelegatingStakeLog (GetValidatorsStateAddress E) l2 (snd d2))
                                 (AddLog l1 (fst d2))"
    by (auto simp: applyDelegatingStakeRules_def d1_def d2_def Let_def
             split: if_splits sum.splits prod.splits)
  have "Balance s' x = Balance (fst d2) x"
    by (simp add: s' AddLog_def)
  moreover have "last (Logs s') = DelegatingStakeLog (GetValidatorsStateAddress E) l2 (snd d2)"
    by (simp add: s' AddLog_def)
  ultimately show ?thesis
    using b1 b2 i2 by (auto simp: credited_def)
qed

lemma fixtureD_rules:
  "actualRules envD valD = Returned (False, testRules)"
  by (simp add: actualRules_def isValidatorTrialPeriod_def envD_def chainD_def valD_def
        dsD_def Let_def fixture_defs)

lemma fixtureD_split:
  "profitAndStake envD 3200000000000000000000 100 = (100, 0)"
  "profitAndStake envD 3200000000000000000000 101 = (101, 0)"
  "profitAndStake envD 3199999999999999999800 300 = (100, 200)"
  by (simp_all add: profitAndStake_def effectiveBalanceWei_def BigWat_def envD_def Let_def
        fixture_defs)

lemma fixtureD_env:
  "IsForkSlotDelegate (Config envD) (ctx_Slot (ctx envD)) = True"
  "IsForkSlotValOpTracking (Config envD) (ctx_Slot (ctx envD)) = True"
  "txlog envD = txlog0" "operation envD = ops0" "blockchain envD = chainD"
  "GetValidatorsStateAddress envD = 0x1000"
  "effectiveBalanceWei envD = 3200000000000000000000"
  by (simp_all add: envD_def GetValidatorsStateAddress_def effectiveBalanceWei_def BigWat_def
        fixture_defs)

lemma fixtureD_ok:
  "snd (applyDelegatingStakeRules envD stateD (opD a b) valD) = Returned (RetAddress 0xC1)"
  by (simp add: applyDelegatingStakeRules_def fixtureD_rules fixtureD_env opD_def txlog0_def
           split: prod.splits)

theorem delegating_distribution_witness:
  "Balance (fst (applyDelegatingStakeRules envD stateD (opD 100 3200000000000000000000) valD))
       0x1111111111111111111111111111111111111111 = 10
   \<and> Balance (fst (applyDelegatingStakeRules envD stateD (opD 100 3200000000000000000000) valD))
       0x2222222222222222222222222222222222222222 = 30
   \<and> Balance (fst (applyDelegatingStakeRules envD stateD (opD 100 3200000000000000000000) valD))
       0x3333333333333333333333333333333333333333 = 60
   \<and> credited 100 (ProfitShare testRules) = 100
   \<and> Balance (fst (applyDelegatingStakeRules envD stateD (opD 101 3200000000000000000000) valD))
       0x1111111111111111111111111111111111111111 = 10
   \<and> Balance (fst (applyDelegatingStakeRules envD stateD (opD 101 3200000000000000000000) valD))
       0x2222222222222222222222222222222222222222 = 30
   \<and> Balance (fst (applyDelegatingStakeRules envD stateD (opD 101 3200000000000000000000) valD))
       0x3333333333333333333333333333333333333333 = 60
   \<and> credited 101 (ProfitShare testRules) = 100"
proof -
  have d: "distinct (map fst (ProfitShare testRules))" "distinct (map fst (StakeShare testRules))"
    by (simp_all add: testRules_def)
  have c: "credit 100 (ProfitShare testRules) 0x1111111111111111111111111111111111111111 = 10"
    "credit 100 (ProfitShare testRules) 0x2222222222222222222222222222222222222222 = 30"
    "credit 100 (ProfitShare testRules) 0x3333333333333333333333333333333333333333 = 60"
    "credit 101 (ProfitShare testRules) 0x1111111111111111111111111111111111111111 = 10"
    "credit 101 (ProfitShare testRules) 0x2222222222222222222222222222222222222222 = 30"
    "credit 101 (ProfitShare testRules) 0x3333333333333333333333333333333333333333 = 60"
    "credit 0 (StakeShare testRules) x = 0"
    "shareSum (ProfitShare testRules) = 100"
    "Balance stateD 0x1111111111111111111111111111111111111111 = 0"
    "Balance stateD 0x2222222222222222222222222222222222222222 = 0"
    "Balance stateD 0x3333333333333333333333333333333333333333 = 0" for x
    by (simp_all add: credit_def testRules_def shareSum_def stateD_def state0_def)
  have o: "vs_Balance (opD a b) = Some b" "vs_Amount (opD a b) = Some a" for a b
    by (simp_all add: opD_def)
  show ?thesis
    using
      delegating_distribution [OF _ fixtureD_rules o fixtureD_split(1) d,
        where s = stateD and s' = "fst (applyDelegatingStakeRules envD stateD
                                         (opD 100 3200000000000000000000) valD)"
          and r = "RetAddress 0xC1"]
      delegating_distribution [OF _ fixtureD_rules o fixtureD_split(2) d,
        where s = stateD and s' = "fst (applyDelegatingStakeRules envD stateD
                                         (opD 101 3200000000000000000000) valD)"
          and r = "RetAddress 0xC1"]
      fixtureD_ok [of 100 3200000000000000000000] fixtureD_ok [of 101 3200000000000000000000]
    by (simp add: c prod_eq_iff)
qed

section \<open>The pending withdrawal after a balance update\<close>

lemma applyDelegatingStakeRules_Validators:
  "Validators (fst (applyDelegatingStakeRules E s op v)) = Validators s"
proof -
  have fr: "Validators s1 = Validators s"
    if "distribute t2 tr2 S sh2 (distribute t1 tr1 P sh1 (s, [])) = (s1, info)"
    for t1 t2 tr1 tr2 P S sh1 sh2 s1 info
    using that
      distribute_frame [of t2 tr2 S sh2 "fst (distribute t1 tr1 P sh1 (s, []))"
                          "snd (distribute t1 tr1 P sh1 (s, []))"]
      distribute_frame [of t1 tr1 P sh1 s "[]"]
    by simp
  show ?thesis
    by (auto simp: applyDelegatingStakeRules_def AddLog_def Let_def dest!: fr
             split: outcome.splits option.splits prod.splits sum.splits)
qed

lemma updateBalance_delegating_branch:
  assumes "Validators s (vs_Creator op) = Some v0"
    and "updateBalanceChecks E v0 op = Returned ()"
    and "HasDelegatingStake v0"
    and "\<not> (ActivationEra v0 = MaxUint64 \<and> TotalStake v0 < effectiveBalanceWei E)"
  shows "validatorUpdateBalance E s op
           = applyDelegatingStakeRules E s op
               ((updateValidatorVersionBySlot E v0)\<lparr>PendingWithdrawalTx := None\<rparr>)"
    and "Validators (fst (validatorUpdateBalance E s op)) = Validators s"
proof -
  let ?v1 = "(updateValidatorVersionBySlot E v0)\<lparr>PendingWithdrawalTx := None\<rparr>"
  have v1: "ActivationEra (updateValidatorVersionBySlot E v0) = ActivationEra v0"
    "TotalStake ?v1 = TotalStake v0" "HasDelegatingStake ?v1 = HasDelegatingStake v0"
    by (simp_all add: TotalStake_def HasDelegatingStake_def updateValidatorVersionBySlot_def)
  show "validatorUpdateBalance E s op
           = applyDelegatingStakeRules E s op
               ((updateValidatorVersionBySlot E v0)\<lparr>PendingWithdrawalTx := None\<rparr>)"
    using assms
    by (auto simp add: validatorUpdateBalance_def GetValidator_def Let_def v1)
  then show "Validators (fst (validatorUpdateBalance E s op)) = Validators s"
    by (simp add: applyDelegatingStakeRules_Validators)
qed

lemma fixtureD_validate:
  "ValidateValidatorSyncOp envD (opD 100 3200000000000000000000) 250 0x7A = None"
  by (simp add: ValidateValidatorSyncOp_def CompareValSync_def initBySlashing_def
        checkInitTx_def syncOpCode_def opD_def savedD_def decode0_def wdP_def chainD_def
        envD_def ReceiptStatusSuccessful_def Let_def fixture_defs)

lemma fixtureD_checks:
  "updateBalanceChecks envD valD (opD a b) = Returned ()"
  "updateBalanceChecks envD (valP 0x55) (opD a b) = Returned ()"
  by (simp_all add: updateBalanceChecks_def valD_def valP_def opD_def NewValidator_def)

lemma fixtureD_rules_cleared:
  "actualRules envD ((updateValidatorVersionBySlot envD valD)\<lparr>PendingWithdrawalTx := None\<rparr>)
     = Returned (False, testRules)"
  by (simp add: actualRules_def isValidatorTrialPeriod_def updateValidatorVersionBySlot_def
        envD_def chainD_def valD_def dsD_def Let_def fixture_defs)

text \<open>
  C5 on the code.  A balance update of 100 for the validator with delegating stake goes
  through \<open>Call\<close> and succeeds, and the stored record still has the pending withdrawal
  transaction \<open>0x55\<close>: \<open>applyDelegatingStakeRules\<close> returns without storing the
  record that \<open>validatorUpdateBalance\<close> has reset.  The same update for the validator
  without delegating stake stores the record with no pending withdrawal transaction.
\<close>

theorem updateBalance_delegating_keeps_pending:
  "snd (Call envD stateD 0xF1 0x1000 None msgUpdateBalance) = Returned (RetAddress 0xC1)
   \<and> map_option PendingWithdrawalTx
        (Validators (fst (Call envD stateD 0xF1 0x1000 None msgUpdateBalance)) 0xC1)
       = Some (Some 0x55)
   \<and> snd (Call envD (stateP 0x55) 0xF1 0x1000 None msgUpdateBalance)
       = Returned (RetAddress 0xC1)
   \<and> map_option PendingWithdrawalTx
        (Validators (fst (Call envD (stateP 0x55) 0xF1 0x1000 None msgUpdateBalance)) 0xC1)
       = Some None"
proof -
  let ?op = "opD 100 3200000000000000000000"
  let ?sD = "SetNonce 0xF1 (GetNonce stateD 0xF1 + 1) stateD"
  let ?sP = "SetNonce 0xF1 (GetNonce (stateP 0x55) 0xF1 + 1) (stateP 0x55)"
  have dec: "DecodeBytes (operation envD) (msg_Data msgUpdateBalance) = Inr (ValidatorSync ?op)"
    by (simp add: fixtureD_env ops0_def decode0_def msgUpdateBalance_def)
  have tx: "msg_TxHash msgUpdateBalance = 0x7A" "ctx_Slot (ctx envD) = 250"
    by (simp_all add: msgUpdateBalance_def envD_def env0_def)
  have code: "syncOpCode ?op = UpdateBalanceCode"
    by (simp add: syncOpCode_def opD_def)
  have vD: "Validators ?sD (vs_Creator ?op) = Some valD"
    by (simp add: SetNonce_def stateD_def opD_def)
  have dlg: "HasDelegatingStake valD"
    "\<not> (ActivationEra valD = MaxUint64 \<and> TotalStake valD < effectiveBalanceWei envD)"
    by (simp_all add: HasDelegatingStake_def valD_def MaxUint64_def)
  note br = updateBalance_delegating_branch [OF vD fixtureD_checks(1) dlg]
  have okD: "snd (validatorUpdateBalance envD ?sD ?op) = Returned (RetAddress 0xC1)"
    by (simp only: br(1))
       (simp add: applyDelegatingStakeRules_def fixtureD_rules_cleared fixtureD_env
          opD_def txlog0_def split: prod.splits)
  have syncD: "syncOpProcessing envD ?sD ?op msgUpdateBalance = validatorUpdateBalance envD ?sD ?op"
    by (simp add: syncOpProcessing_def tx fixtureD_validate code)
  have callD: "Call envD stateD 0xF1 0x1000 None msgUpdateBalance
                 = validatorUpdateBalance envD ?sD ?op"
    using okD by (simp add: Call_def dec Let_def syncD)
  have keepD: "Validators (fst (validatorUpdateBalance envD ?sD ?op)) 0xC1 = Some valD"
    by (simp only: br(2)) (simp add: SetNonce_def stateD_def)
  have resP: "snd (validatorUpdateBalance envD ?sP ?op) = Returned (RetAddress 0xC1)
      \<and> map_option PendingWithdrawalTx
            (Validators (fst (validatorUpdateBalance envD ?sP ?op)) 0xC1) = Some None"
    by (simp add: validatorUpdateBalance_def updateBalanceChecks_def GetValidator_def
          SetValidator_def Let_def fixtureD_env SetNonce_def GetNonce_def stateP_def valP_def
          opD_def TotalStake_def HasDelegatingStake_def updateValidatorVersionBySlot_def
          NewValidator_def MaxUint64_def txlog0_def AddLog_def AddBalance_def state0_def)
  have syncP: "syncOpProcessing envD ?sP ?op msgUpdateBalance = validatorUpdateBalance envD ?sP ?op"
    by (simp add: syncOpProcessing_def tx fixtureD_validate code)
  have callP: "Call envD (stateP 0x55) 0xF1 0x1000 None msgUpdateBalance
                 = validatorUpdateBalance envD ?sP ?op"
    by (simp add: Call_def dec Let_def syncP resP)
  show ?thesis
    by (simp add: callD okD keepD callP resP valD_def)
qed

section \<open>Refund of an insufficient deposit\<close>









end
